theory Spec2Isabelle
  imports Complex_Main
begin

section \<open>Logging\<close>

text \<open>
  \<^verbatim>\<open>utils/logger.ts\<close> is a global singleton whose methods print to the console when the
  configured level allows it. A call to the logger is modelled as an entry appended to a
  log: the level, the message template, the interpolated values, the component.
\<close>

datatype level = LDebug | LInfo | LWarn | LError

datatype logarg = ArgNat nat | ArgInt int | ArgReal real | ArgStr string | ArgNaN

datatype log_entry = LogEntry level string "logarg list" string

text \<open>
  A thrown exception is a value: \<open>JsError msg\<close> is an \<open>Error\<close> with that message.
  \<open>RapierFreed\<close> stands for calling into a rigid body whose world is gone; the physics
  adapter has no such branch, and its invariant below shows that no reachable state has a
  registered body without a world.
\<close>

datatype error = JsError string | RapierFreed

section \<open>ThreeSceneC: the phase cycle of the collision demo\<close>

text \<open>
  \<^verbatim>\<open>private collisionPhase: 'setup' | 'firing' | 'physics' | 'cleanup' = 'setup'\<close>.
  The union of string literals is a datatype; \<open>phase_key\<close> gives the string each value is
  at run time, which is the key used to index the \<open>phaseDurations\<close> object.
\<close>

datatype phase = Setup | Firing | Physics | Cleanup

fun phase_key :: "phase \<Rightarrow> string" where
  "phase_key Setup = ''setup''"
| "phase_key Firing = ''firing''"
| "phase_key Physics = ''physics''"
| "phase_key Cleanup = ''cleanup''"

text \<open>The object literal \<open>phaseDurations\<close> (milliseconds), as an association list.\<close>

definition phaseDurations :: "(string \<times> int) list" where
  "phaseDurations =
     [(''setup'', 500), (''firing'', 0), (''physics'', 8000), (''cleanup'', 1000)]"

text \<open>
  Everything the scene does outside the phase fields (three.js objects, the physics
  adapter, the loading bar, timers, the logger) is recorded as an event, in call order.
  None of these routines reads or writes \<open>collisionPhase\<close>, \<open>phaseStartTime\<close> or
  \<open>currentCycleNumber\<close>; the routines that do are modelled in full below.
\<close>

datatype eventC =
    EvLog log_entry
  | EvLoaderProgress nat
  | EvPhysicsInit
  | EvCreateGrids
  | EvCreatePhysicsWalls
  | EvSetupLighting
  | EvSetupCamera
  | EvTimeoutHideLoader nat
  | EvTimeoutStartCycle nat
  | EvPhysicsStep
  | EvClearCollisionParticles
  | EvSetupRandomParticles
  | EvSetupRandomParticlesUntilThrow
  | EvUpdateSetupPhase
  | EvUpdateFiringPhase
  | EvUpdatePhysicsPhase
  | EvUpdateCleanupPhase
  | EvRotateAtoms
  | EvUpdateTrails
  | EvRequestAnimationFrame
  | EvCancelAnimationFrame
  | EvMoveCamera
  | EvRender
  | EvPhysicsDispose
  | EvClearTrails
  | EvClearArrays
  | EvLoaderDispose
  | EvManagerDispose

text \<open>
  The fields of the class that the phase cycle reads or writes. \<open>engineInitialized\<close> is
  the \<open>initialized\<close> flag of the scene's own \<open>PhysicsEngine\<close> object
  (\<^verbatim>\<open>shared/PhysicsEngine.ts\<close>): the engine's \<open>init\<close> sets it, the engine's \<open>dispose\<close>
  clears it, and \<open>addDynamicSphere\<close> throws exactly when it is clear. The scene's own flag
  \<open>physicsInitialized\<close> is set once and never cleared.
\<close>

record sceneC =
  isLoaded :: bool
  physicsInitialized :: bool
  engineInitialized :: bool
  collisionPhase :: phase
  phaseStartTime :: int
  currentCycleNumber :: nat
  animating :: bool
  hasLoadingBar :: bool
  events :: "eventC list"

definition emit :: "eventC list \<Rightarrow> sceneC \<Rightarrow> sceneC" where
  "emit es s = s\<lparr>events := events s @ es\<rparr>"

definition logC :: "level \<Rightarrow> string \<Rightarrow> logarg list \<Rightarrow> eventC" where
  "logC l m as = EvLog (LogEntry l m as ''ThreeSceneC'')"

text \<open>The field initialisers of the class, after \<open>createLoader\<close> has run in the constructor.\<close>

definition initC :: sceneC where
  "initC = \<lparr> isLoaded = False, physicsInitialized = False, engineInitialized = False,
             collisionPhase = Setup, phaseStartTime = 0, currentCycleNumber = 0,
             animating = False, hasLoadingBar = True, events = [EvLoaderProgress 10] \<rparr>"

text \<open>\<open>this.loadingBar?.updateProgress(p)\<close>: nothing happens once the bar is null.\<close>

definition loaderProgress :: "nat \<Rightarrow> sceneC \<Rightarrow> sceneC" where
  "loaderProgress p s = (if hasLoadingBar s then emit [EvLoaderProgress p] s else s)"

text \<open>
  \<open>setupRandomParticles\<close>. After its guard on the scene's flag it removes the old atoms
  and creates between 8 and 16 new ones, at least four on each side; for each it builds
  the mesh and then calls \<open>physicsEngine.addDynamicSphere\<close>. That call throws
  \<open>Error('Physics engine not initialized')\<close> when the engine is not initialised, which
  nothing in the routine catches: the first creation then ends the routine, with the first
  mesh already in the scene (\<open>EvSetupRandomParticlesUntilThrow\<close>). Otherwise the whole
  routine runs (\<open>EvSetupRandomParticles\<close>).
\<close>

definition setupRandomParticles :: "sceneC \<Rightarrow> (error + unit) \<times> sceneC" where
  "setupRandomParticles s =
     (let s1 = emit [logC LDebug ''setupRandomParticles called, physicsInitialized: {}''
                       [ArgStr (if physicsInitialized s then ''true'' else ''false'')]] s
      in if \<not> physicsInitialized s1
         then (Inr (),
               emit [logC LWarn ''Physics not initialized, skipping particle setup'' []] s1)
         else if engineInitialized s1
         then (Inr (), emit [EvSetupRandomParticles] s1)
         else (Inl (JsError ''Physics engine not initialized''),
               emit [EvSetupRandomParticlesUntilThrow] s1))"

text \<open>
  \<open>beginNewCycle\<close>; \<open>now\<close> is what \<open>Date.now()\<close> returns there. The three fields are
  assigned before anything can throw.
\<close>

definition beginNewCycle :: "int \<Rightarrow> sceneC \<Rightarrow> (error + unit) \<times> sceneC" where
  "beginNewCycle now s =
     setupRandomParticles
       (emit [logC LInfo ''Starting collision cycle #{}'' [ArgNat (currentCycleNumber s + 1)],
              EvClearCollisionParticles]
          (s\<lparr>currentCycleNumber := currentCycleNumber s + 1,
             collisionPhase := Setup,
             phaseStartTime := now\<rparr>))"

text \<open>
  \<open>advancePhase\<close>: the \<open>cleanup\<close> case returns early after \<open>beginNewCycle\<close>, the other
  cases fall through to \<open>this.phaseStartTime = Date.now()\<close>.
\<close>

definition advancePhase :: "int \<Rightarrow> sceneC \<Rightarrow> (error + unit) \<times> sceneC" where
  "advancePhase now s =
     (case collisionPhase s of
        Setup \<Rightarrow>
          (Inr (), (emit [logC LDebug ''Phase: Setup -> Physics (firing skipped)'' []]
                      (s\<lparr>collisionPhase := Physics\<rparr>))\<lparr>phaseStartTime := now\<rparr>)
      | Firing \<Rightarrow>
          (Inr (), (emit [logC LDebug ''Phase: Firing -> Physics'' []]
                      (s\<lparr>collisionPhase := Physics\<rparr>))\<lparr>phaseStartTime := now\<rparr>)
      | Physics \<Rightarrow>
          (Inr (), (emit [logC LDebug ''Phase: Physics -> Cleanup'' []]
                      (s\<lparr>collisionPhase := Cleanup\<rparr>))\<lparr>phaseStartTime := now\<rparr>)
      | Cleanup \<Rightarrow> beginNewCycle now s)"

text \<open>
  \<open>updatePhysics\<close>. \<open>now1\<close> is the \<open>Date.now()\<close> read into \<open>currentTime\<close>, \<open>now2\<close> the later
  one read when the phase start time is reset. The duration is looked up in the table by
  the phase's key; a missing key would give \<open>undefined\<close>, and
  \<open>phaseElapsed >= undefined\<close> is false in JavaScript. \<open>physicsEngine.step\<close> returns at once
  on an engine that is not initialised; it does not throw.
\<close>

definition phaseLogic :: "phase \<Rightarrow> eventC" where
  "phaseLogic p = (case p of Setup \<Rightarrow> EvUpdateSetupPhase | Firing \<Rightarrow> EvUpdateFiringPhase
                   | Physics \<Rightarrow> EvUpdatePhysicsPhase | Cleanup \<Rightarrow> EvUpdateCleanupPhase)"

definition updatePhysics :: "int \<Rightarrow> int \<Rightarrow> sceneC \<Rightarrow> (error + unit) \<times> sceneC" where
  "updatePhysics now1 now2 s =
     (if \<not> isLoaded s \<or> \<not> physicsInitialized s then (Inr (), s)
      else
        let s1 = emit [EvPhysicsStep] s;
            phaseElapsed = now1 - phaseStartTime s1;
            currentPhaseDuration = map_of phaseDurations (phase_key (collisionPhase s1))
        in if (case currentPhaseDuration of None \<Rightarrow> False | Some d \<Rightarrow> phaseElapsed \<ge> d)
           then advancePhase now2 s1
           else
             let s2 = emit [phaseLogic (collisionPhase s1), EvRotateAtoms] s1
             in (Inr (), if collisionPhase s2 = Firing \<or> collisionPhase s2 = Physics
                         then emit [EvUpdateTrails] s2 else s2))"

text \<open>
  \<open>animate\<close>, the per-frame callback. The next frame is requested first; an exception out
  of \<open>updatePhysics\<close> leaves \<open>animate\<close> before the camera is moved and the frame rendered.
\<close>

definition animate :: "int \<Rightarrow> int \<Rightarrow> sceneC \<Rightarrow> (error + unit) \<times> sceneC" where
  "animate now1 now2 s =
     (let s1 = emit [EvRequestAnimationFrame] (s\<lparr>animating := True\<rparr>)
      in if isLoaded s1
         then (case updatePhysics now1 now2 s1 of
                 (Inl e, s2) \<Rightarrow> (Inl e, s2)
               | (Inr u, s2) \<Rightarrow> (Inr (), emit [EvMoveCamera, EvRender] s2))
         else (Inr (), emit [EvRender] s1))"

text \<open>
  \<open>initAsync\<close>, from the constructor's call to the settlement of its promise. Its argument
  is what \<open>await this.physicsEngine.init()\<close> produced: \<open>None\<close> when it resolved,
  \<open>Some msg\<close> when it threw an error with that message (the logger gets the message in its
  component position). The constructor's last line, the log of the start, runs while that
  \<open>await\<close> is pending. The \<open>try\<close> block is \<open>init\<close>, \<open>createGrids\<close>,
  \<open>createPhysicsWalls\<close>, \<open>setupLighting\<close>, \<open>setupCamera\<close>, \<open>startCollisionSequence\<close>; the
  \<open>catch\<close> logs and returns.
\<close>

definition startCollisionSequence :: "sceneC \<Rightarrow> sceneC" where
  "startCollisionSequence s =
     emit [EvTimeoutHideLoader 1000, EvTimeoutStartCycle 2000]
       ((loaderProgress 100 s)\<lparr>isLoaded := True\<rparr>)"

definition initAsync :: "string option \<Rightarrow> sceneC \<Rightarrow> sceneC" where
  "initAsync physicsInitThrew s =
     (let s1 = emit [EvPhysicsInit,
                     logC LInfo ''Hadron Collider Simulation initialization started'' []]
                (loaderProgress 15 s)
      in case physicsInitThrew of
           Some msg \<Rightarrow>
             emit [EvLog (LogEntry LError ''Failed to initialize physics simulation:'' [] msg)]
               s1
         | None \<Rightarrow>
             let s2 = emit [logC LDebug ''Physics engine and environment initialized'' []]
                        (loaderProgress 30
                           (s1\<lparr>engineInitialized := True, physicsInitialized := True\<rparr>));
                 s3 = loaderProgress 40 (emit [EvCreateGrids] s2);
                 s4 = (if \<not> physicsInitialized s3 then s3
                       else loaderProgress 50 (emit [EvCreatePhysicsWalls] s3));
                 s5 = loaderProgress 70 (emit [EvSetupLighting] s4);
                 s6 = loaderProgress 85 (emit [EvSetupCamera] s5)
             in startCollisionSequence s6)"

text \<open>
  The \<open>startCycle\<close> closure run by the timer of \<open>startCollisionSequence\<close>. It has no
  \<open>try\<close>: an exception out of \<open>beginNewCycle\<close> skips the log that follows and leaves the
  timer callback.
\<close>

definition startCycle :: "int \<Rightarrow> sceneC \<Rightarrow> (error + unit) \<times> sceneC" where
  "startCycle now s =
     (if physicsInitialized s
      then (case beginNewCycle now s of
              (Inl e, s1) \<Rightarrow> (Inl e, s1)
            | (Inr u, s1) \<Rightarrow>
                (Inr (), emit [logC LInfo ''Continuous hadron collision sequence initiated'' []]
                           s1))
      else (Inr (), emit [logC LDebug ''Waiting for physics initialization...'' [],
                          EvTimeoutStartCycle 500] s))"

text \<open>
  \<open>dispose\<close>: it disposes of the physics engine, which clears the engine's \<open>initialized\<close>
  flag, and among the clean-up it resets \<open>collisionPhase\<close> to \<open>'setup'\<close>. It leaves
  \<open>isLoaded\<close>, \<open>physicsInitialized\<close> and \<open>phaseStartTime\<close> as they are and cancels no timer.
\<close>

definition disposeC :: "sceneC \<Rightarrow> sceneC" where
  "disposeC s =
     (let s1 = (if animating s then emit [EvCancelAnimationFrame] (s\<lparr>animating := False\<rparr>)
                else s);
          s2 = emit [EvPhysicsDispose] (s1\<lparr>engineInitialized := False\<rparr>);
          s3 = emit [EvClearTrails, EvClearArrays] (s2\<lparr>collisionPhase := Setup\<rparr>);
          s4 = (if hasLoadingBar s3 then emit [EvLoaderDispose] (s3\<lparr>hasLoadingBar := False\<rparr>)
                else s3)
      in emit [EvManagerDispose,
               logC LInfo ''Physics-based Hadron Collider Simulation disposed successfully'' []]
           s4)"

text \<open>
  What can happen to a scene: the constructor's \<open>initAsync\<close> completes, the start-up timer
  fires, the host calls \<open>animate\<close> or \<open>dispose\<close>. Each carries the values the
  environment supplies (the outcome of the physics initialisation, the clock readings).
  A step gives what the call threw, if anything, and the state it left.
\<close>

datatype opC =
    OpInitAsync "string option"
  | OpStartCycle int
  | OpAnimate int int
  | OpDispose

fun stepC :: "opC \<Rightarrow> sceneC \<Rightarrow> (error + unit) \<times> sceneC" where
  "stepC (OpInitAsync r) s = (Inr (), initAsync r s)"
| "stepC (OpStartCycle now) s = startCycle now s"
| "stepC (OpAnimate now1 now2) s = animate now1 now2 s"
| "stepC OpDispose s = (Inr (), disposeC s)"

fun runC :: "opC list \<Rightarrow> sceneC \<Rightarrow> sceneC" where
  "runC [] s = s"
| "runC (x # xs) s = runC xs (snd (stepC x s))"

inductive reachableC :: "sceneC \<Rightarrow> bool" where
  reach_init: "reachableC initC"
| reach_step: "reachableC s \<Longrightarrow> reachableC (snd (stepC x s))"

section \<open>PhysicsEngine: the adapter around the rigid-body engine\<close>

text \<open>
  JavaScript numbers are taken as reals. \<open>THREE.Vector3\<close> and \<open>RAPIER.Vector3\<close> arguments
  are read component by component at the call, so they are passed by value.
\<close>

type_synonym vec3 = "real \<times> real \<times> real"
type_synonym quat = "real \<times> real \<times> real \<times> real"

text \<open>
  The rigid-body engine is a third-party library. What the adapter relies on is kept:
  a world owns rigid bodies, addressed by handle, each with a translation, a rotation and
  velocities; creating a body returns a fresh handle; the setters overwrite one
  component. What one simulation step or an impulse does to a world is the library's
  business and stays a parameter (\<open>rapier\<close> below).
\<close>

record rigid_body =
  rb_fixed :: bool
  translation :: vec3
  rotation :: quat
  linvel :: vec3
  angvel :: vec3

datatype shape = Cuboid real real real | Ball real

record collider =
  col_parent :: nat
  col_shape :: shape
  col_mass :: "real option"
  col_restitution :: "real option"
  col_friction :: "real option"

record world =
  gravity :: vec3
  rigidBodies :: "nat \<Rightarrow> rigid_body"
  liveBodies :: "nat list"
  colliders :: "collider list"
  nextHandle :: nat

record rapier =
  world_step :: "world \<Rightarrow> world"
  applyImpulse :: "vec3 \<Rightarrow> rigid_body \<Rightarrow> rigid_body"

definition new_body :: "bool \<Rightarrow> vec3 \<Rightarrow> rigid_body" where
  "new_body fixed p = \<lparr> rb_fixed = fixed, translation = p, rotation = (0, 0, 0, 1),
                         linvel = (0, 0, 0), angvel = (0, 0, 0) \<rparr>"

definition new_world :: "vec3 \<Rightarrow> world" where
  "new_world g = \<lparr> gravity = g, rigidBodies = (\<lambda>_. new_body True (0, 0, 0)),
                    liveBodies = [], colliders = [], nextHandle = 0 \<rparr>"

definition createRigidBody :: "bool \<Rightarrow> vec3 \<Rightarrow> world \<Rightarrow> nat \<times> world" where
  "createRigidBody fixed p w =
     (nextHandle w,
      w\<lparr>rigidBodies := (rigidBodies w)(nextHandle w := new_body fixed p),
        liveBodies := liveBodies w @ [nextHandle w],
        nextHandle := nextHandle w + 1\<rparr>)"

definition createCollider :: "collider \<Rightarrow> world \<Rightarrow> world" where
  "createCollider c w = w\<lparr>colliders := colliders w @ [c]\<rparr>"

definition removeRigidBody :: "nat \<Rightarrow> world \<Rightarrow> world" where
  "removeRigidBody h w =
     w\<lparr>liveBodies := removeAll h (liveBodies w),
       colliders := filter (\<lambda>c. col_parent c \<noteq> h) (colliders w)\<rparr>"

definition updBody :: "nat \<Rightarrow> (rigid_body \<Rightarrow> rigid_body) \<Rightarrow> world \<Rightarrow> world" where
  "updBody h f w = w\<lparr>rigidBodies := (rigidBodies w)(h := f (rigidBodies w h))\<rparr>"

text \<open>
  A \<open>THREE.Mesh\<close> is an object of the caller, held by reference: the adapter stores the
  reference and writes through it. Meshes therefore live in a heap indexed by reference;
  of a mesh only the two fields the adapter writes are kept.
\<close>

record mesh3 =
  position :: vec3
  quaternion :: quat

text \<open>\<open>interface PhysicsBody { rigidBody; mesh; id }\<close>\<close>

record physicsBody =
  rigidBody :: nat
  mesh :: nat
  body_id :: nat

text \<open>
  The class \<open>PhysicsEngine\<close>. \<open>bodies\<close> is a JavaScript \<open>Map\<close>, which iterates in insertion
  order: an association list with \<open>map_set\<close> (overwrite in place, else append) and
  \<open>map_delete\<close>. \<open>nextBodyId\<close> is a natural number: the model does not reach the
  \<open>2^53\<close> additions after which a JavaScript number stops counting.
\<close>

record physicsEngine =
  world :: "world option"
  bodies :: "(nat \<times> physicsBody) list"
  nextBodyId :: nat
  initialized :: bool
  meshes :: "nat \<Rightarrow> mesh3"
  plog :: "log_entry list"

fun map_set :: "'k \<Rightarrow> 'v \<Rightarrow> ('k \<times> 'v) list \<Rightarrow> ('k \<times> 'v) list" where
  "map_set k v [] = [(k, v)]"
| "map_set k v ((k', v') # xs) = (if k' = k then (k, v) # xs else (k', v') # map_set k v xs)"

definition map_delete :: "'k \<Rightarrow> ('k \<times> 'v) list \<Rightarrow> ('k \<times> 'v) list" where
  "map_delete k xs = filter (\<lambda>kv. fst kv \<noteq> k) xs"

definition logP :: "level \<Rightarrow> string \<Rightarrow> logarg list \<Rightarrow> physicsEngine \<Rightarrow> physicsEngine" where
  "logP l m as s = s\<lparr>plog := plog s @ [LogEntry l m as ''PhysicsEngine'']\<rparr>"

definition enginePristine :: "(nat \<Rightarrow> mesh3) \<Rightarrow> physicsEngine" where
  "enginePristine h = \<lparr> world = None, bodies = [], nextBodyId = 0, initialized = False,
                       meshes = h, plog = [] \<rparr>"

text \<open>
  \<open>init\<close>. The argument is the outcome of \<open>await RAPIER.init()\<close> and \<open>new RAPIER.World\<close>:
  \<open>None\<close> when both succeed, \<open>Some msg\<close> when one throws an error with that message. The
  \<open>catch\<close> block logs (the message is passed in the logger's component position) and
  re-throws.
\<close>

definition init :: "string option \<Rightarrow> physicsEngine \<Rightarrow> (error + unit) \<times> physicsEngine" where
  "init outcome s =
     (if initialized s then (Inr (), s)
      else case outcome of
             Some msg \<Rightarrow>
               (Inl (JsError msg),
                s\<lparr>plog := plog s @
                     [LogEntry LError ''Failed to initialize physics engine:'' [] msg]\<rparr>)
           | None \<Rightarrow>
               (Inr (), logP LInfo ''Rapier Physics engine initialized'' []
                          (s\<lparr>world := Some (new_world (0, -2, 0)), initialized := True\<rparr>)))"

definition addStaticBox ::
  "nat \<Rightarrow> vec3 \<Rightarrow> vec3 \<Rightarrow> physicsEngine \<Rightarrow> (error + nat) \<times> physicsEngine" where
  "addStaticBox m p sz s =
     (case world s of
        None \<Rightarrow> (Inl (JsError ''Physics engine not initialized''), s)
      | Some w \<Rightarrow>
          if \<not> initialized s then (Inl (JsError ''Physics engine not initialized''), s)
          else
            let (h, w1) = createRigidBody True p w;
                (sx, sy, sz0) = sz;
                w2 = createCollider \<lparr> col_parent = h, col_shape = Cuboid (sx / 2) (sy / 2) (sz0 / 2),
                                      col_mass = None, col_restitution = None,
                                      col_friction = None \<rparr> w1;
                i = nextBodyId s
            in (Inr i,
                logP LDebug ''Created static box physics body {}'' [ArgNat i]
                  (s\<lparr>world := Some w2, nextBodyId := i + 1,
                     bodies := map_set i \<lparr> rigidBody = h, mesh = m, body_id = i \<rparr> (bodies s)\<rparr>)))"

text \<open>\<open>mass\<close> and \<open>restitution\<close> are optional parameters with defaults \<open>1.0\<close> and \<open>0.8\<close>.\<close>

definition addDynamicSphere ::
  "nat \<Rightarrow> vec3 \<Rightarrow> real \<Rightarrow> real option \<Rightarrow> real option \<Rightarrow> physicsEngine
     \<Rightarrow> (error + nat) \<times> physicsEngine" where
  "addDynamicSphere m p radius mass restitution s =
     (case world s of
        None \<Rightarrow> (Inl (JsError ''Physics engine not initialized''), s)
      | Some w \<Rightarrow>
          if \<not> initialized s then (Inl (JsError ''Physics engine not initialized''), s)
          else
            let mass' = (case mass of None \<Rightarrow> 1 | Some x \<Rightarrow> x);
                restitution' = (case restitution of None \<Rightarrow> 0.8 | Some x \<Rightarrow> x);
                (h, w1) = createRigidBody False p w;
                w2 = createCollider \<lparr> col_parent = h, col_shape = Ball radius,
                                      col_mass = Some mass', col_restitution = Some restitution',
                                      col_friction = Some 0.3 \<rparr> w1;
                i = nextBodyId s
            in (Inr i,
                logP LDebug ''Created dynamic sphere physics body {} (r={}, m={})''
                  [ArgNat i, ArgReal radius, ArgReal mass']
                  (s\<lparr>world := Some w2, nextBodyId := i + 1,
                     bodies := map_set i \<lparr> rigidBody = h, mesh = m, body_id = i \<rparr> (bodies s)\<rparr>)))"

text \<open>
  The three setters and \<open>addImpulse\<close> share their shape: look the body up, return early when
  it is missing (the setters warn, \<open>addImpulse\<close> is silent), else call into the rigid body.
\<close>

definition onBody ::
  "nat \<Rightarrow> (rigid_body \<Rightarrow> rigid_body) \<Rightarrow> physicsEngine \<Rightarrow> (error + unit) \<times> physicsEngine" where
  "onBody h f s =
     (case world s of
        None \<Rightarrow> (Inl RapierFreed, s)
      | Some w \<Rightarrow> (Inr (), s\<lparr>world := Some (updBody h f w)\<rparr>))"

definition setVelocity :: "nat \<Rightarrow> vec3 \<Rightarrow> physicsEngine \<Rightarrow> (error + unit) \<times> physicsEngine" where
  "setVelocity bodyId velocity s =
     (case map_of (bodies s) bodyId of
        None \<Rightarrow> (Inr (), logP LWarn ''Physics body {} not found'' [ArgNat bodyId] s)
      | Some body \<Rightarrow> onBody (rigidBody body) (\<lambda>rb. rb\<lparr>linvel := velocity\<rparr>) s)"

definition setPosition :: "nat \<Rightarrow> vec3 \<Rightarrow> physicsEngine \<Rightarrow> (error + unit) \<times> physicsEngine" where
  "setPosition bodyId pos s =
     (case map_of (bodies s) bodyId of
        None \<Rightarrow> (Inr (), logP LWarn ''Physics body {} not found'' [ArgNat bodyId] s)
      | Some body \<Rightarrow> onBody (rigidBody body) (\<lambda>rb. rb\<lparr>translation := pos\<rparr>) s)"

definition setAngularVelocity ::
  "nat \<Rightarrow> vec3 \<Rightarrow> physicsEngine \<Rightarrow> (error + unit) \<times> physicsEngine" where
  "setAngularVelocity bodyId angularVelocity s =
     (case map_of (bodies s) bodyId of
        None \<Rightarrow> (Inr (), logP LWarn ''Physics body {} not found'' [ArgNat bodyId] s)
      | Some body \<Rightarrow> onBody (rigidBody body) (\<lambda>rb. rb\<lparr>angvel := angularVelocity\<rparr>) s)"

definition addImpulse ::
  "rapier \<Rightarrow> nat \<Rightarrow> vec3 \<Rightarrow> physicsEngine \<Rightarrow> (error + unit) \<times> physicsEngine" where
  "addImpulse R bodyId impulse s =
     (case map_of (bodies s) bodyId of
        None \<Rightarrow> (Inr (), s)
      | Some body \<Rightarrow> onBody (rigidBody body) (applyImpulse R impulse) s)"

text \<open>
  \<open>step\<close>: step the world, then write every body's transform onto its mesh, in the
  iteration order of the map. The local counter \<open>movingBodies\<close> is never read and is left
  out; the parameter \<open>deltaTime\<close> is not used by the source either.
\<close>

definition syncMesh :: "world \<Rightarrow> (nat \<Rightarrow> mesh3) \<Rightarrow> physicsBody \<Rightarrow> (nat \<Rightarrow> mesh3)" where
  "syncMesh w h body =
     h(mesh body := (h (mesh body))\<lparr>position := translation (rigidBodies w (rigidBody body)),
                                    quaternion := rotation (rigidBodies w (rigidBody body))\<rparr>)"

definition step :: "rapier \<Rightarrow> real \<Rightarrow> physicsEngine \<Rightarrow> physicsEngine" where
  "step R deltaTime s =
     (case world s of
        None \<Rightarrow> s
      | Some w \<Rightarrow>
          if \<not> initialized s then s
          else let w' = world_step R w
               in s\<lparr>world := Some w',
                    meshes := foldl (syncMesh w') (meshes s) (map snd (bodies s))\<rparr>)"

definition removeBody :: "nat \<Rightarrow> physicsEngine \<Rightarrow> physicsEngine" where
  "removeBody bodyId s =
     (case map_of (bodies s) bodyId of
        None \<Rightarrow> s
      | Some body \<Rightarrow>
          (case world s of
             None \<Rightarrow> s
           | Some w \<Rightarrow>
               logP LDebug ''Removed physics body {}'' [ArgNat bodyId]
                 (s\<lparr>world := Some (removeRigidBody (rigidBody body) w),
                    bodies := map_delete bodyId (bodies s)\<rparr>)))"

text \<open>
  \<open>clearAllBodies\<close> calls \<open>removeBody\<close> from inside \<open>bodies.forEach\<close>. Deleting the entry
  being visited does not disturb a \<open>Map\<close> iteration, and \<open>removeBody k\<close> deletes no other
  key, so every key present at the start is visited once, in order.
\<close>

definition clearAllBodies :: "physicsEngine \<Rightarrow> physicsEngine" where
  "clearAllBodies s = foldl (\<lambda>s' k. removeBody k s') s (map fst (bodies s))"

definition getVelocity :: "nat \<Rightarrow> physicsEngine \<Rightarrow> error + vec3 option" where
  "getVelocity bodyId s =
     (case map_of (bodies s) bodyId of
        None \<Rightarrow> Inr None
      | Some body \<Rightarrow>
          (case world s of None \<Rightarrow> Inl RapierFreed
           | Some w \<Rightarrow> Inr (Some (linvel (rigidBodies w (rigidBody body))))))"

definition getPosition :: "nat \<Rightarrow> physicsEngine \<Rightarrow> error + vec3 option" where
  "getPosition bodyId s =
     (case map_of (bodies s) bodyId of
        None \<Rightarrow> Inr None
      | Some body \<Rightarrow>
          (case world s of None \<Rightarrow> Inl RapierFreed
           | Some w \<Rightarrow> Inr (Some (translation (rigidBodies w (rigidBody body))))))"

definition dispose :: "physicsEngine \<Rightarrow> physicsEngine" where
  "dispose s =
     (let s1 = (case world s of None \<Rightarrow> s | Some w \<Rightarrow> (clearAllBodies s)\<lparr>world := None\<rparr>)
      in logP LInfo ''Physics engine disposed'' [] (s1\<lparr>initialized := False\<rparr>))"

text \<open>
  The public operations as a datatype, a step function that also gives the id an add
  returned, and the states reachable from a fresh engine. \<open>OpMeshWrite\<close> is the caller
  changing one of its meshes between calls.
\<close>

datatype opP =
    OpInit "string option"
  | OpAddStaticBox nat vec3 vec3
  | OpAddDynamicSphere nat vec3 real "real option" "real option"
  | OpSetVelocity nat vec3
  | OpSetPosition nat vec3
  | OpSetAngularVelocity nat vec3
  | OpAddImpulse nat vec3
  | OpStep real
  | OpRemoveBody nat
  | OpClearAllBodies
  | OpDisposeEngine
  | OpMeshWrite nat mesh3

fun stepP :: "rapier \<Rightarrow> opP \<Rightarrow> physicsEngine \<Rightarrow> nat option \<times> physicsEngine" where
  "stepP R (OpInit outcome) s = (None, snd (init outcome s))"
| "stepP R (OpAddStaticBox m p sz) s =
     (case addStaticBox m p sz s of (Inl e, s') \<Rightarrow> (None, s') | (Inr i, s') \<Rightarrow> (Some i, s'))"
| "stepP R (OpAddDynamicSphere m p r mass rest) s =
     (case addDynamicSphere m p r mass rest s of
        (Inl e, s') \<Rightarrow> (None, s') | (Inr i, s') \<Rightarrow> (Some i, s'))"
| "stepP R (OpSetVelocity b v) s = (None, snd (setVelocity b v s))"
| "stepP R (OpSetPosition b v) s = (None, snd (setPosition b v s))"
| "stepP R (OpSetAngularVelocity b v) s = (None, snd (setAngularVelocity b v s))"
| "stepP R (OpAddImpulse b v) s = (None, snd (addImpulse R b v s))"
| "stepP R (OpStep dt) s = (None, step R dt s)"
| "stepP R (OpRemoveBody b) s = (None, removeBody b s)"
| "stepP R OpClearAllBodies s = (None, clearAllBodies s)"
| "stepP R OpDisposeEngine s = (None, dispose s)"
| "stepP R (OpMeshWrite a m) s = (None, s\<lparr>meshes := (meshes s)(a := m)\<rparr>)"

fun runP :: "rapier \<Rightarrow> opP list \<Rightarrow> physicsEngine \<Rightarrow> physicsEngine" where
  "runP R [] s = s"
| "runP R (x # xs) s = runP R xs (snd (stepP R x s))"

text \<open>The ids returned by the successful adds of a run, in the order of the calls.\<close>

fun returnedIds :: "rapier \<Rightarrow> opP list \<Rightarrow> physicsEngine \<Rightarrow> nat list" where
  "returnedIds R [] s = []"
| "returnedIds R (x # xs) s =
     (case fst (stepP R x s) of
        None \<Rightarrow> returnedIds R xs (snd (stepP R x s))
      | Some i \<Rightarrow> i # returnedIds R xs (snd (stepP R x s)))"

inductive reachableP :: "rapier \<Rightarrow> physicsEngine \<Rightarrow> bool" for R where
  reachP_init: "reachableP R (enginePristine h)"
| reachP_step: "reachableP R s \<Longrightarrow> reachableP R (snd (stepP R x s))"

text \<open>
  The invariant of the adapter: the world exists exactly when the engine is initialised,
  no body is registered without a world, and every registered key is a distinct id that
  was handed out before.
\<close>

definition engine_inv :: "physicsEngine \<Rightarrow> bool" where
  "engine_inv s \<longleftrightarrow>
     (world s \<noteq> None \<longleftrightarrow> initialized s) \<and>
     (world s = None \<longrightarrow> bodies s = []) \<and>
     (\<forall>kb \<in> set (bodies s). fst kb < nextBodyId s \<and> body_id (snd kb) = fst kb) \<and>
     distinct (map fst (bodies s))"

text \<open>
  What a \<open>catch (error)\<close> block makes of a thrown value with
  \<open>error instanceof Error ? error.message : String(error)\<close>; \<open>None\<close> when nothing was
  thrown.
\<close>

fun thrownMessage :: "error + 'a \<Rightarrow> string option" where
  "thrownMessage (Inl (JsError msg)) = Some msg"
| "thrownMessage (Inl RapierFreed) = Some ''RapierFreed''"
| "thrownMessage (Inr v) = None"

section \<open>ShaderManager: the shader registry\<close>

text \<open>
  Uniform values are JavaScript values: primitives, or references to objects (a
  \<open>THREE.Color\<close>, a vector, a texture, ...). Objects live in a heap, so that two
  references to one object can be told from two equal objects. Of an object its class (as
  far as \<open>instanceof\<close> in \<open>cloneUniforms\<close> tells classes apart) and its numeric
  components are kept; \<open>KOther\<close> is any class that is not \<open>Color\<close>, \<open>Vector2\<close> or
  \<open>Vector3\<close>.
\<close>

datatype objkind = KColor | KVector2 | KVector3 | KOther

record jsobj =
  okind :: objkind
  ocomps :: "real list"

datatype uval = VNull | VNum real | VBool bool | VStr string | VRef nat

text \<open>
  The GLSL texts of the four built-in shaders are long literals that no code inspects; they
  are named by shader and stage instead of being spelled out.
\<close>

datatype glsl = GlslBuiltin string string | GlslText string

text \<open>
  \<open>interface ShaderDefinition\<close>. \<open>uniforms\<close> is an object from names to cells
  \<open>{ value }\<close>; \<open>for (key in uniforms)\<close> visits the names in insertion order. A
  definition is modelled by value, one entry per cell.
\<close>

record shaderDef =
  vertexShader :: glsl
  fragmentShader :: glsl
  uniforms :: "(string \<times> uval) list"

record shaderManager =
  shaders :: "(string \<times> shaderDef) list"
  sm_initialized :: bool
  heap :: "nat \<Rightarrow> jsobj"
  hnext :: nat

text \<open>\<open>new C(...)\<close> and \<open>x.clone()\<close>: a new object at the next free reference.\<close>

definition alloc :: "jsobj \<Rightarrow> shaderManager \<Rightarrow> nat \<times> shaderManager" where
  "alloc ob s = (hnext s, s\<lparr>heap := (heap s)(hnext s := ob), hnext := hnext s + 1\<rparr>)"

text \<open>
  \<open>new THREE.Color(hex)\<close>: the three bytes scaled to \<open>[0, 1]\<close> (the colour-space
  conversion three.js may apply on top is left out).
\<close>

definition colorOfHex :: "nat \<Rightarrow> jsobj" where
  "colorOfHex h = \<lparr> okind = KColor,
                     ocomps = [real (h div 65536 mod 256) / 255, real (h div 256 mod 256) / 255,
                               real (h mod 256) / 255] \<rparr>"

definition vector3 :: "real \<Rightarrow> real \<Rightarrow> real \<Rightarrow> jsobj" where
  "vector3 x y z = \<lparr> okind = KVector3, ocomps = [x, y, z] \<rparr>"

definition smPristine :: shaderManager where
  "smPristine = \<lparr> shaders = [], sm_initialized = False,
                   heap = (\<lambda>_. \<lparr> okind = KOther, ocomps = [] \<rparr>), hnext = 0 \<rparr>"

text \<open>\<open>init\<close>: the four \<open>this.shaders.set(...)\<close> calls, in order, then the flag.\<close>

definition initShaders :: "shaderManager \<Rightarrow> shaderManager" where
  "initShaders s =
     (if sm_initialized s then s
      else
        let (top, s1) = alloc (colorOfHex 0x0077ff) s;
            (bottom, s2) = alloc (colorOfHex 0xffffff) s1;
            s3 = s2\<lparr>shaders := map_set ''skyEnvironment''
                   \<lparr> vertexShader = GlslBuiltin ''skyEnvironment'' ''vertex'',
                     fragmentShader = GlslBuiltin ''skyEnvironment'' ''fragment'',
                     uniforms = [(''skyTexture'', VNull), (''topColor'', VRef top),
                                 (''bottomColor'', VRef bottom), (''offset'', VNum 400),
                                 (''exponent'', VNum 0.6)] \<rparr> (shaders s2)\<rparr>;
            (cam, s4) = alloc (vector3 0 0 0) s3;
            s5 = s4\<lparr>shaders := map_set ''clouds''
                   \<lparr> vertexShader = GlslBuiltin ''clouds'' ''vertex'',
                     fragmentShader = GlslBuiltin ''clouds'' ''fragment'',
                     uniforms = [(''cameraPosition'', VRef cam)] \<rparr> (shaders s4)\<rparr>;
            (light, s6) = alloc (vector3 1 1 1) s5;
            s7 = s6\<lparr>shaders := map_set ''terrain''
                   \<lparr> vertexShader = GlslBuiltin ''terrain'' ''vertex'',
                     fragmentShader = GlslBuiltin ''terrain'' ''fragment'',
                     uniforms = [(''diffuseMap'', VNull), (''normalMap'', VNull),
                                 (''lightDirection'', VRef light)] \<rparr> (shaders s6)\<rparr>;
            (col, s8) = alloc (colorOfHex 0x00aaff) s7;
            s9 = s8\<lparr>shaders := map_set ''shield''
                   \<lparr> vertexShader = GlslBuiltin ''shield'' ''vertex'',
                     fragmentShader = GlslBuiltin ''shield'' ''fragment'',
                     uniforms = [(''opacity'', VNum 0.5), (''color'', VRef col)] \<rparr> (shaders s8)\<rparr>
        in s9\<lparr>sm_initialized := True\<rparr>)"

text \<open>
  \<open>cloneUniforms\<close>: a \<open>Color\<close>, \<open>Vector2\<close> or \<open>Vector3\<close> value is cloned, any other value
  is put into the new cell as it is (for an object: the same reference). \<open>acc\<close> is the
  object \<open>cloned\<close> under construction.
\<close>

definition cloneValue :: "uval \<Rightarrow> shaderManager \<Rightarrow> uval \<times> shaderManager" where
  "cloneValue v s =
     (case v of
        VRef a \<Rightarrow>
          if okind (heap s a) = KColor \<or> okind (heap s a) = KVector2 \<or> okind (heap s a) = KVector3
          then (let (a', s') = alloc (heap s a) s in (VRef a', s'))
          else (v, s)
      | _ \<Rightarrow> (v, s))"

fun cloneUniformsInto ::
  "(string \<times> uval) list \<Rightarrow> (string \<times> uval) list \<Rightarrow> shaderManager
     \<Rightarrow> (string \<times> uval) list \<times> shaderManager" where
  "cloneUniformsInto [] acc s = (acc, s)"
| "cloneUniformsInto ((key, v) # us) acc s =
     (let (v', s') = cloneValue v s in cloneUniformsInto us (map_set key v' acc) s')"

definition cloneUniforms ::
  "(string \<times> uval) list \<Rightarrow> shaderManager \<Rightarrow> (string \<times> uval) list \<times> shaderManager" where
  "cloneUniforms us s = cloneUniformsInto us [] s"

fun join :: "string \<Rightarrow> string list \<Rightarrow> string" where
  "join sep [] = []"
| "join sep [x] = x"
| "join sep (x # y # ys) = x @ sep @ join sep (y # ys)"

definition notFoundMessage :: "string \<Rightarrow> string list \<Rightarrow> string" where
  "notFoundMessage name keys =
     ''Shader '' @ [CHR 0x27] @ name @ [CHR 0x27] @ '' not found. Available shaders: '' @
     join '', '' keys"

definition find_shader :: "string \<Rightarrow> shaderManager \<Rightarrow> (error + shaderDef) \<times> shaderManager" where
  "find_shader name s =
     (let s0 = (if \<not> sm_initialized s then initShaders s else s)
      in case map_of (shaders s0) name of
           None \<Rightarrow> (Inl (JsError (notFoundMessage name (map fst (shaders s0)))), s0)
         | Some shader \<Rightarrow>
             let (us, s1) = cloneUniforms (uniforms shader) s0
             in (Inr \<lparr> vertexShader = vertexShader shader,
                       fragmentShader = fragmentShader shader,
                       uniforms = us \<rparr>, s1))"

text \<open>
  \<open>find_shader\<close> is the static method \<open>find\<close>.
\<close>

definition getAvailableShaders :: "shaderManager \<Rightarrow> string list \<times> shaderManager" where
  "getAvailableShaders s =
     (let s0 = (if \<not> sm_initialized s then initShaders s else s) in (map fst (shaders s0), s0))"

definition addShader :: "string \<Rightarrow> shaderDef \<Rightarrow> shaderManager \<Rightarrow> shaderManager" where
  "addShader name definition s =
     (let s0 = (if \<not> sm_initialized s then initShaders s else s)
      in s0\<lparr>shaders := map_set name definition (shaders s0)\<rparr>)"

text \<open>
  What a holder of a uniforms object can observe: each name with its value, an object
  being seen through its reference.
\<close>

definition deref :: "shaderManager \<Rightarrow> uval \<Rightarrow> uval + jsobj" where
  "deref s v = (case v of VRef a \<Rightarrow> Inr (heap s a) | _ \<Rightarrow> Inl v)"

definition view :: "shaderManager \<Rightarrow> (string \<times> uval) list \<Rightarrow> (string \<times> (uval + jsobj)) list" where
  "view s us = map (\<lambda>kv. (fst kv, deref s (snd kv))) us"

text \<open>
  Changing an object in place (\<open>value.x = ...\<close>, \<open>value.setHex(...)\<close>): the heap cell of
  its reference gets new contents.
\<close>

definition mutate :: "nat \<Rightarrow> jsobj \<Rightarrow> shaderManager \<Rightarrow> shaderManager" where
  "mutate a ob s = s\<lparr>heap := (heap s)(a := ob)\<rparr>"

text \<open>
  A registry is well formed when every reference it holds is to an allocated object and
  the uniform names of each definition are distinct (they are the keys of an object).
\<close>

definition sm_wf :: "shaderManager \<Rightarrow> bool" where
  "sm_wf s \<longleftrightarrow>
     (\<forall>nd \<in> set (shaders s).
        distinct (map fst (uniforms (snd nd))) \<and>
        (\<forall>kv \<in> set (uniforms (snd nd)). \<forall>a. snd kv = VRef a \<longrightarrow> a < hnext s))"

text \<open>
  A definition is cloneable when each of its values is a primitive or a \<open>Color\<close>,
  \<open>Vector2\<close> or \<open>Vector3\<close>: the kinds \<open>cloneUniforms\<close> copies.
\<close>

definition cloneable :: "shaderManager \<Rightarrow> (string \<times> uval) list \<Rightarrow> bool" where
  "cloneable s us \<longleftrightarrow>
     (\<forall>kv \<in> set us. \<forall>a. snd kv = VRef a \<longrightarrow> okind (heap s a) \<noteq> KOther)"

text \<open>
  \<open>frame s s'\<close>: going from \<open>s\<close> to \<open>s'\<close> kept the registry and every object that existed
  in \<open>s\<close>, and only added objects.
\<close>

definition frame :: "shaderManager \<Rightarrow> shaderManager \<Rightarrow> bool" where
  "frame s s' \<longleftrightarrow>
     shaders s' = shaders s \<and> sm_initialized s' = sm_initialized s \<and> hnext s \<le> hnext s' \<and>
     (\<forall>a < hnext s. heap s' a = heap s a)"

text \<open>
  \<open>copy_of s s' kv kv'\<close>: the cell \<open>kv'\<close>, seen in \<open>s'\<close>, is a copy of the cell \<open>kv\<close> as seen
  in \<open>s\<close>: same name, same observable value, and a new reference when the value is of a
  copied kind.
\<close>

definition copy_of :: "shaderManager \<Rightarrow> shaderManager \<Rightarrow> string \<times> uval \<Rightarrow> string \<times> uval \<Rightarrow> bool"
  where
  "copy_of s s' kv kv' \<longleftrightarrow>
     fst kv' = fst kv \<and> deref s' (snd kv') = deref s (snd kv) \<and>
     (\<forall>a'. snd kv' = VRef a' \<longrightarrow> a' < hnext s') \<and>
     (\<forall>a. snd kv = VRef a \<and> okind (heap s a) \<noteq> KOther \<longrightarrow>
          (\<exists>a'. snd kv' = VRef a' \<and> hnext s \<le> a'))"

section \<open>ThreeSceneD and LotteryAnalyzer: fetching the lottery results\<close>

text \<open>
  A JavaScript number that may be \<open>NaN\<close> (what \<open>parseInt\<close> returns): \<open>None\<close> is \<open>NaN\<close>.
  Integers beyond \<open>2^53\<close>, which a JavaScript number rounds, are not modelled.
\<close>

type_synonym jsnum = "int option"

text \<open>\<open>interface LotteryData\<close> (and \<open>LotteryDrawData\<close>, which has the same fields).\<close>

record lotteryData =
  draw_date :: string
  winning_numbers :: string
  ld_multiplier :: string

text \<open>
  What \<open>await fetch(url)\<close> followed by \<open>await response.json()\<close> can produce: the fetch
  rejects; the response is not ok (with its status); the body cannot be parsed; the data.
\<close>

datatype fetch_outcome =
    FetchRejected string
  | FetchNotOk nat
  | FetchJsonRejected string
  | FetchOk "lotteryData list"

text \<open>The interpolated \<open>${error}\<close> of the \<open>catch\<close> blocks.\<close>

fun errorArgs :: "fetch_outcome \<Rightarrow> logarg list" where
  "errorArgs (FetchRejected msg) = [ArgStr msg]"
| "errorArgs (FetchNotOk status) = [ArgStr ''Error: HTTP error! status: {}'', ArgNat status]"
| "errorArgs (FetchJsonRejected msg) = [ArgStr msg]"
| "errorArgs (FetchOk d) = []"

text \<open>
  \<open>LotteryAnalyzer.fetchHistoricalData\<close>: the value the returned promise resolves to, and
  what was logged. \<open>limit\<close> only enters the URL.
\<close>

definition fetchHistoricalData ::
  "nat \<Rightarrow> fetch_outcome \<Rightarrow> (error + lotteryData list) \<times> log_entry list" where
  "fetchHistoricalData limit outcome =
     (case outcome of
        FetchOk d \<Rightarrow>
          (Inr d, [LogEntry LInfo ''Fetched {} historical lottery draws'' [ArgNat (length d)]
                     ''LotteryAnalyzer''])
      | _ \<Rightarrow>
          (Inr [], [LogEntry LError ''Error fetching historical lottery data: {}''
                      (errorArgs outcome) ''LotteryAnalyzer'']))"






text \<open>
  The scene. A ball carries the number last drawn on its texture and whether it was drawn
  in the red style; the 3D text carries the date and the multiplier it was built from.
  Calls that only touch the page are events.
\<close>

record ball =
  ball_label :: "(jsnum \<times> bool) option"

record text3d =
  t_date :: string
  t_multiplier :: string

datatype eventD =
    DLog log_entry
  | DUiCleared
  | DFrequencyPanel "int option"

record sceneD =
  currentNumbers :: "jsnum list"
  drawDate :: string
  multiplier :: string
  lotteryBalls :: "ball list"
  dateText :: "text3d option"
  hasUiContainer :: bool
  hasFrequencyContainer :: bool
  selectedNumberForFrequency :: "jsnum option"
  loadingBar :: "nat option"
  eventsD :: "eventD list"

text \<open>
  What the browser supplies: whether a canvas gives a 2D context, the locale formatting of
  a date string, today's date in the locale, and the current time as an ISO string.
\<close>

record envD =
  canvas2d :: bool
  formatLocale :: "string \<Rightarrow> string"
  todayLocale :: string
  nowIso :: string

definition logD :: "level \<Rightarrow> string \<Rightarrow> logarg list \<Rightarrow> sceneD \<Rightarrow> sceneD" where
  "logD l m as s = s\<lparr>eventsD := eventsD s @ [DLog (LogEntry l m as ''ThreeSceneD'')]\<rparr>"

definition numArg :: "jsnum \<Rightarrow> logarg" where
  "numArg n = (case n of None \<Rightarrow> ArgNaN | Some i \<Rightarrow> ArgInt i)"

definition formatDate :: "envD \<Rightarrow> string \<Rightarrow> string" where
  "formatDate env dateString = (if dateString = [] then [] else formatLocale env dateString)"

definition update3DTexts :: "envD \<Rightarrow> sceneD \<Rightarrow> sceneD" where
  "update3DTexts env s =
     logD LDebug ''3D text elements updated'' []
       (case dateText s of
          None \<Rightarrow> s
        | Some old \<Rightarrow>
            let f = formatDate env (drawDate s);
                formattedDate = (if f = [] then todayLocale env else f)
            in s\<lparr>dateText := Some \<lparr> t_date = formattedDate, t_multiplier = multiplier s \<rparr>\<rparr>)"

text \<open>
  The loop of \<open>updateBallNumbers\<close>, over the indices below both lengths; \<open>i\<close> is the index
  of the first ball of the list. The sixth ball (\<open>i = 5\<close>) is drawn in the red style.
\<close>

fun paintBalls :: "envD \<Rightarrow> nat \<Rightarrow> ball list \<Rightarrow> jsnum list \<Rightarrow> ball list \<times> eventD list" where
  "paintBalls env i (b # bs) (n # ns) =
     (let (bs', es) = paintBalls env (Suc i) bs ns
      in if canvas2d env
         then (b\<lparr>ball_label := Some (n, i = 5)\<rparr> # bs',
               DLog (LogEntry LDebug ''Applied number {} to ball {} ({})''
                       [numArg n, ArgNat i, ArgStr (if i = 5 then ''red'' else ''white'')]
                       ''ThreeSceneD'') # es)
         else (b # bs', es))"
| "paintBalls env i bs [] = (bs, [])"
| "paintBalls env i [] ns = ([], [])"

definition updateBallNumbers :: "envD \<Rightarrow> sceneD \<Rightarrow> sceneD" where
  "updateBallNumbers env s =
     (let s1 = logD LDebug ''Updating ball numbers: {}'' (map numArg (currentNumbers s)) s;
          (bs, es) = paintBalls env 0 (lotteryBalls s1) (currentNumbers s1);
          s2 = s1\<lparr>lotteryBalls := bs, eventsD := eventsD s1 @ es\<rparr>
      in update3DTexts env (logD LDebug ''Ball numbers updated'' [] s2))"

text \<open>
  \<open>updateUI\<close>. The frequency panel shows the selected number when it is truthy (neither
  \<open>null\<close>, \<open>0\<close> nor \<open>NaN\<close>); the count beside it comes from the analyzer and is not kept.
\<close>

definition updateUI :: "sceneD \<Rightarrow> sceneD" where
  "updateUI s =
     (if \<not> hasUiContainer s then s
      else s\<lparr>eventsD := eventsD s @ [DUiCleared] @
               (if hasFrequencyContainer s
                then [DFrequencyPanel (case selectedNumberForFrequency s of
                                          Some (Some n) \<Rightarrow> if n = 0 then None else Some n
                                        | _ \<Rightarrow> None)]
                else [])\<rparr>)"



section \<open>ThreeSceneE: loading the models of the arcade shooter\<close>

text \<open>
  Of the scene graph the shapes are kept: a mesh is its geometry (with the constructor
  arguments of the source) and the class of its material; a loaded model is named by its
  URL; a group lists its children in the order they were added.
\<close>

datatype geometry =
    ConeGeometry real real nat
  | SphereGeometry real nat nat
  | IcosahedronGeometry real nat
  | BoxGeometry real real real

datatype obj3d =
    Mesh geometry string
  | Model string
  | Group "obj3d list"

text \<open>
  \<open>interface Asteroid\<close>; the transform of its \<open>mesh\<close> object (position, Euler rotation,
  uniform scale) is kept beside the shape. \<open>a_scale\<close> is \<open>None\<close> where the source leaves
  the scale at its default.
\<close>

record asteroid =
  a_mesh :: obj3d
  a_position :: vec3
  a_rotation :: vec3
  a_scale :: "real option"
  a_velocity :: vec3
  a_angularVelocity :: vec3
  a_size :: real

text \<open>
  The fields of the class that loading touches. \<open>rngPos\<close> counts the calls of
  \<open>Math.random()\<close> made so far; the numbers themselves are a parameter \<open>rnd\<close> of the
  functions that draw, \<open>rnd k\<close> being the result of call number \<open>k\<close>.
\<close>

record sceneE =
  ship :: "obj3d option"
  shieldMesh :: "obj3d option"
  asteroidModel :: "string option"
  asteroids :: "asteroid list"
  sceneObjs :: "obj3d list"
  gameLevel :: nat
  shields :: nat
  rngPos :: nat
  logE :: "log_entry list"

definition logEv :: "level \<Rightarrow> string \<Rightarrow> logarg list \<Rightarrow> sceneE \<Rightarrow> sceneE" where
  "logEv l m as s = s\<lparr>logE := logE s @ [LogEntry l m as ''ThreeSceneE'']\<rparr>"

text \<open>The field initialisers (\<open>level = 1\<close>, \<open>shields = 3\<close>, no ship, no model).\<close>

definition initE :: sceneE where
  "initE = \<lparr> ship = None, shieldMesh = None, asteroidModel = None, asteroids = [],
             sceneObjs = [], gameLevel = 1, shields = 3, rngPos = 0, logE = [] \<rparr>"

datatype load_outcome = Loaded | LoadFailed string

text \<open>
  \<open>loadAsteroidModel\<close>: the model is stored when it loads; a failure is logged and
  nothing else happens.
\<close>

definition loadAsteroidModel :: "load_outcome \<Rightarrow> sceneE \<Rightarrow> sceneE" where
  "loadAsteroidModel outcome s =
     (case outcome of
        Loaded \<Rightarrow> logEv LInfo ''Asteroid model loaded successfully'' []
                    (s\<lparr>asteroidModel := Some ''/models/Asteroid_1e.fbx''\<rparr>)
      | LoadFailed msg \<Rightarrow> logEv LError ''Failed to load asteroid model: {}'' [ArgStr msg] s)"

text \<open>
  The three thruster cones, built the same way in \<open>loadShip\<close> and in
  \<open>createFallbackShip\<close>, and the shield sphere of \<open>createShield\<close> (its material comes
  from the shader registry under the name \<open>shield\<close>).
\<close>

definition thrusterGroup :: obj3d where
  "thrusterGroup = Group (replicate 3 (Mesh (ConeGeometry 0.15 0.8 6) ''MeshBasicMaterial''))"

definition createShield :: "sceneE \<Rightarrow> sceneE" where
  "createShield s =
     (let shield = Mesh (SphereGeometry 3 32 16) ''ShaderMaterial shield''
      in s\<lparr>shieldMesh := Some shield,
           ship := (case ship s of
                      Some (Group children) \<Rightarrow> Some (Group (children @ [shield]))
                    | other \<Rightarrow> other)\<rparr>)"

definition addToScene :: "sceneE \<Rightarrow> sceneE" where
  "addToScene s = (case ship s of None \<Rightarrow> s | Some g \<Rightarrow> s\<lparr>sceneObjs := sceneObjs s @ [g]\<rparr>)"

text \<open>\<open>createFallbackShip\<close>: "original ship geometry as fallback", a three-sided cone.\<close>

definition createFallbackShip :: "sceneE \<Rightarrow> sceneE" where
  "createFallbackShip s =
     addToScene (createShield
       (s\<lparr>ship := Some (Group [Mesh (ConeGeometry 0.8 2.5 3) ''MeshPhongMaterial'',
                                thrusterGroup])\<rparr>))"

text \<open>
  The \<open>do ... while\<close> loop of \<open>createAsteroid\<close> draws \<open>x\<close> and \<open>z\<close> until the point is at
  least 15 away from the origin (\<open>WORLD_SIZE\<close> is 120). Nothing bounds the number of
  rounds, so the loop is a partial function: its result is the accepted point and the
  number of the next call of \<open>Math.random()\<close>.
\<close>

partial_function (option) samplePosition :: "(nat \<Rightarrow> real) \<Rightarrow> nat \<Rightarrow> (real \<times> real \<times> nat) option"
  where
  "samplePosition rnd k =
     (if sqrt (((rnd k - 0.5) * 120 * 0.6) * ((rnd k - 0.5) * 120 * 0.6) +
               ((rnd (k + 1) - 0.5) * 120 * 0.6) * ((rnd (k + 1) - 0.5) * 120 * 0.6)) < 15
      then samplePosition rnd (k + 2)
      else Some ((rnd k - 0.5) * 120 * 0.6, (rnd (k + 1) - 0.5) * 120 * 0.6, k + 2))"

text \<open>
  \<open>createAsteroid\<close>: without the model it warns and creates nothing; with it, a clone is
  scaled, rotated and placed, and pushed onto \<open>asteroids\<close> and into the scene. \<open>None\<close> is
  a placement loop that never ends.
\<close>

definition createAsteroid :: "(nat \<Rightarrow> real) \<Rightarrow> real \<Rightarrow> sceneE \<Rightarrow> sceneE option" where
  "createAsteroid rnd sz s =
     (case asteroidModel s of
        None \<Rightarrow> Some (logEv LWarn ''Asteroid model not loaded, skipping asteroid creation'' [] s)
      | Some model \<Rightarrow>
          let k = rngPos s;
              rot = (rnd k * pi * 2, rnd (k + 1) * pi * 2, rnd (k + 2) * pi * 2)
          in case samplePosition rnd (k + 3) of
               None \<Rightarrow> None
             | Some (x, z, k') \<Rightarrow>
                 let a = \<lparr> a_mesh = Model model,
                           a_position = (x, rnd k' * 2 - 1, z),
                           a_rotation = rot,
                           a_scale = Some (sz * 0.005),
                           a_velocity = ((rnd (k' + 1) - 0.5) * 0.5, 0, (rnd (k' + 2) - 0.5) * 0.5),
                           a_angularVelocity = ((rnd (k' + 3) - 0.5) * 0.015,
                                                (rnd (k' + 4) - 0.5) * 0.015,
                                                (rnd (k' + 5) - 0.5) * 0.015),
                           a_size = sz \<rparr>
                 in Some (s\<lparr>asteroids := asteroids s @ [a],
                           sceneObjs := sceneObjs s @ [a_mesh a],
                           rngPos := k' + 6\<rparr>))"

text \<open>\<open>createAsteroids\<close>: \<open>5 + level * 2\<close> large asteroids.\<close>

fun createAsteroidsLoop :: "(nat \<Rightarrow> real) \<Rightarrow> nat \<Rightarrow> sceneE \<Rightarrow> sceneE option" where
  "createAsteroidsLoop rnd 0 s = Some s"
| "createAsteroidsLoop rnd (Suc n) s =
     (case createAsteroid rnd 3 s of
        None \<Rightarrow> None
      | Some s' \<Rightarrow> createAsteroidsLoop rnd n s')"

definition createAsteroids :: "(nat \<Rightarrow> real) \<Rightarrow> sceneE \<Rightarrow> sceneE option" where
  "createAsteroids rnd s = createAsteroidsLoop rnd (5 + gameLevel s * 2) s"

text \<open>
  \<open>createAsteroidAt\<close>, used for the fragments of a destroyed asteroid: without the model
  it falls back to an icosahedron. It returns the asteroid; the caller pushes it.
\<close>

definition createAsteroidAt ::
  "(nat \<Rightarrow> real) \<Rightarrow> vec3 \<Rightarrow> real \<Rightarrow> sceneE \<Rightarrow> asteroid \<times> sceneE" where
  "createAsteroidAt rnd pos sz s =
     (let k = rngPos s
      in case asteroidModel s of
           None \<Rightarrow>
             let s1 = logEv LWarn ''Asteroid model not loaded, creating fallback asteroid'' [] s;
                 a = \<lparr> a_mesh = Mesh (IcosahedronGeometry (sz * 0.7) 1) ''MeshStandardMaterial'',
                       a_position = pos,
                       a_rotation = (0, 0, 0),
                       a_scale = None,
                       a_velocity = (0, 0, 0),
                       a_angularVelocity = ((rnd k - 0.5) * 0.015, (rnd (k + 1) - 0.5) * 0.015,
                                            (rnd (k + 2) - 0.5) * 0.015),
                       a_size = sz \<rparr>
             in (a, s1\<lparr>sceneObjs := sceneObjs s1 @ [a_mesh a], rngPos := k + 3\<rparr>)
         | Some model \<Rightarrow>
             let a = \<lparr> a_mesh = Model model,
                       a_position = pos,
                       a_rotation = (rnd k * pi * 2, rnd (k + 1) * pi * 2, rnd (k + 2) * pi * 2),
                       a_scale = Some (sz * 0.005),
                       a_velocity = (0, 0, 0),
                       a_angularVelocity = ((rnd (k + 3) - 0.5) * 0.015,
                                            (rnd (k + 4) - 0.5) * 0.015,
                                            (rnd (k + 5) - 0.5) * 0.015),
                       a_size = sz \<rparr>
             in (a, s\<lparr>sceneObjs := sceneObjs s @ [a_mesh a], rngPos := k + 6\<rparr>))"

text \<open>
  \<open>loadShip\<close>. The textures are loaded one by one with their own \<open>catch\<close>, so the \<open>try\<close>
  block fails only with the model. Either way the ship gets its shield, goes into the
  scene, and \<open>createAsteroids\<close> runs.
\<close>

definition loadShip :: "load_outcome \<Rightarrow> (nat \<Rightarrow> real) \<Rightarrow> sceneE \<Rightarrow> sceneE option" where
  "loadShip outcome rnd s =
     (case outcome of
        Loaded \<Rightarrow>
          createAsteroids rnd
            (addToScene (createShield
               (s\<lparr>ship := Some (Group [Model ''/models/Fighter_03.fbx'', thrusterGroup])\<rparr>)))
      | LoadFailed msg \<Rightarrow>
          createAsteroids rnd
            (createFallbackShip (logEv LError ''Failed to load ship model: {}'' [ArgStr msg] s)))"

text \<open>\<open>farEnough rnd k\<close>: the point drawn by calls \<open>k\<close> and \<open>k + 1\<close> ends the placement loop.\<close>

definition farEnough :: "(nat \<Rightarrow> real) \<Rightarrow> nat \<Rightarrow> bool" where
  "farEnough rnd k \<longleftrightarrow>
     \<not> sqrt (((rnd k - 0.5) * 120 * 0.6) * ((rnd k - 0.5) * 120 * 0.6) +
             ((rnd (k + 1) - 0.5) * 120 * 0.6) * ((rnd (k + 1) - 0.5) * 120 * 0.6)) < 15"

section \<open>ThreeSceneC: properties of the phase cycle\<close>

lemma emit_fields [simp]:
  "isLoaded (emit es s) = isLoaded s"
  "physicsInitialized (emit es s) = physicsInitialized s"
  "engineInitialized (emit es s) = engineInitialized s"
  "collisionPhase (emit es s) = collisionPhase s"
  "phaseStartTime (emit es s) = phaseStartTime s"
  "currentCycleNumber (emit es s) = currentCycleNumber s"
  "animating (emit es s) = animating s"
  "hasLoadingBar (emit es s) = hasLoadingBar s"
  by (simp_all add: emit_def)

lemma loaderProgress_fields [simp]:
  "isLoaded (loaderProgress p s) = isLoaded s"
  "physicsInitialized (loaderProgress p s) = physicsInitialized s"
  "engineInitialized (loaderProgress p s) = engineInitialized s"
  "collisionPhase (loaderProgress p s) = collisionPhase s"
  "phaseStartTime (loaderProgress p s) = phaseStartTime s"
  "currentCycleNumber (loaderProgress p s) = currentCycleNumber s"
  "animating (loaderProgress p s) = animating s"
  "hasLoadingBar (loaderProgress p s) = hasLoadingBar s"
  by (simp_all add: loaderProgress_def)

lemma setupRandomParticles_fields [simp]:
  "isLoaded (snd (setupRandomParticles s)) = isLoaded s"
  "physicsInitialized (snd (setupRandomParticles s)) = physicsInitialized s"
  "engineInitialized (snd (setupRandomParticles s)) = engineInitialized s"
  "collisionPhase (snd (setupRandomParticles s)) = collisionPhase s"
  "phaseStartTime (snd (setupRandomParticles s)) = phaseStartTime s"
  "currentCycleNumber (snd (setupRandomParticles s)) = currentCycleNumber s"
  "animating (snd (setupRandomParticles s)) = animating s"
  "hasLoadingBar (snd (setupRandomParticles s)) = hasLoadingBar s"
  by (simp_all add: setupRandomParticles_def Let_def)

lemma setupRandomParticles_fst:
  "fst (setupRandomParticles s) =
     (if physicsInitialized s \<and> \<not> engineInitialized s
      then Inl (JsError ''Physics engine not initialized'') else Inr ())"
  by (simp add: setupRandomParticles_def Let_def)

lemma beginNewCycle_fields [simp]:
  "isLoaded (snd (beginNewCycle now s)) = isLoaded s"
  "physicsInitialized (snd (beginNewCycle now s)) = physicsInitialized s"
  "engineInitialized (snd (beginNewCycle now s)) = engineInitialized s"
  "collisionPhase (snd (beginNewCycle now s)) = Setup"
  "phaseStartTime (snd (beginNewCycle now s)) = now"
  "currentCycleNumber (snd (beginNewCycle now s)) = currentCycleNumber s + 1"
  "animating (snd (beginNewCycle now s)) = animating s"
  "hasLoadingBar (snd (beginNewCycle now s)) = hasLoadingBar s"
  by (simp_all add: beginNewCycle_def)

lemma beginNewCycle_fst:
  "fst (beginNewCycle now s) =
     (if physicsInitialized s \<and> \<not> engineInitialized s
      then Inl (JsError ''Physics engine not initialized'') else Inr ())"
  by (simp add: beginNewCycle_def setupRandomParticles_fst)

lemma beginNewCycle_ready:
  assumes "physicsInitialized s" and "engineInitialized s"
  shows "beginNewCycle now s =
     (Inr (),
      emit [logC LInfo ''Starting collision cycle #{}'' [ArgNat (currentCycleNumber s + 1)],
            EvClearCollisionParticles,
            logC LDebug ''setupRandomParticles called, physicsInitialized: {}''
              [ArgStr ''true''],
            EvSetupRandomParticles]
        (s\<lparr>currentCycleNumber := currentCycleNumber s + 1,
           collisionPhase := Setup,
           phaseStartTime := now\<rparr>))"
  using assms by (simp add: beginNewCycle_def setupRandomParticles_def Let_def emit_def)

lemma beginNewCycle_disposed:
  assumes "physicsInitialized s" and "\<not> engineInitialized s"
  shows "beginNewCycle now s =
     (Inl (JsError ''Physics engine not initialized''),
      emit [logC LInfo ''Starting collision cycle #{}'' [ArgNat (currentCycleNumber s + 1)],
            EvClearCollisionParticles,
            logC LDebug ''setupRandomParticles called, physicsInitialized: {}''
              [ArgStr ''true''],
            EvSetupRandomParticlesUntilThrow]
        (s\<lparr>currentCycleNumber := currentCycleNumber s + 1,
           collisionPhase := Setup,
           phaseStartTime := now\<rparr>))"
  using assms by (simp add: beginNewCycle_def setupRandomParticles_def Let_def emit_def)

lemma advancePhase_phase:
  "collisionPhase (snd (advancePhase now s)) =
     (case collisionPhase s of Setup \<Rightarrow> Physics | Firing \<Rightarrow> Physics
      | Physics \<Rightarrow> Cleanup | Cleanup \<Rightarrow> Setup)"
  by (simp add: advancePhase_def split: phase.splits)

lemma advancePhase_start: "phaseStartTime (snd (advancePhase now s)) = now"
  by (simp add: advancePhase_def split: phase.splits)

lemma advancePhase_fields [simp]:
  "isLoaded (snd (advancePhase now s)) = isLoaded s"
  "physicsInitialized (snd (advancePhase now s)) = physicsInitialized s"
  "engineInitialized (snd (advancePhase now s)) = engineInitialized s"
  "animating (snd (advancePhase now s)) = animating s"
  "hasLoadingBar (snd (advancePhase now s)) = hasLoadingBar s"
  by (simp_all add: advancePhase_def split: phase.splits)

lemma advancePhase_cycle:
  "currentCycleNumber (snd (advancePhase now s)) =
     (if collisionPhase s = Cleanup then currentCycleNumber s + 1 else currentCycleNumber s)"
  by (simp add: advancePhase_def split: phase.splits)

lemma advancePhase_fst:
  "collisionPhase s \<noteq> Cleanup \<Longrightarrow> fst (advancePhase now s) = Inr ()"
  by (simp add: advancePhase_def split: phase.splits)

lemma updatePhysics_cases:
  assumes "isLoaded s" "physicsInitialized s"
  shows "updatePhysics now1 now2 s =
     (if (case collisionPhase s of Setup \<Rightarrow> 500 | Firing \<Rightarrow> 0
          | Physics \<Rightarrow> 8000 | Cleanup \<Rightarrow> 1000) \<le> now1 - phaseStartTime s
      then advancePhase now2 (emit [EvPhysicsStep] s)
      else (Inr (),
            let s2 = emit [phaseLogic (collisionPhase s), EvRotateAtoms] (emit [EvPhysicsStep] s)
            in if collisionPhase s = Firing \<or> collisionPhase s = Physics
               then emit [EvUpdateTrails] s2 else s2))"
  using assms
  by (cases "collisionPhase s") (simp_all add: updatePhysics_def phaseDurations_def Let_def)

lemma updatePhysics_fields [simp]:
  "isLoaded (snd (updatePhysics now1 now2 s)) = isLoaded s"
  "physicsInitialized (snd (updatePhysics now1 now2 s)) = physicsInitialized s"
  "engineInitialized (snd (updatePhysics now1 now2 s)) = engineInitialized s"
  "animating (snd (updatePhysics now1 now2 s)) = animating s"
  "hasLoadingBar (snd (updatePhysics now1 now2 s)) = hasLoadingBar s"
  by (simp_all add: updatePhysics_def Let_def split: option.splits)

lemma updatePhysics_phase:
  "collisionPhase (snd (updatePhysics now1 now2 s)) = collisionPhase s \<or>
   (collisionPhase s, collisionPhase (snd (updatePhysics now1 now2 s))) \<in>
     {(Setup, Physics), (Firing, Physics), (Physics, Cleanup), (Cleanup, Setup)}"
  by (cases "collisionPhase s")
     (simp_all add: updatePhysics_def Let_def advancePhase_phase split: option.splits)

lemma animate_snd:
  "snd (animate now1 now2 s) =
     (let s1 = emit [EvRequestAnimationFrame] (s\<lparr>animating := True\<rparr>)
      in if isLoaded s
         then (case fst (updatePhysics now1 now2 s1) of
                 Inl e \<Rightarrow> snd (updatePhysics now1 now2 s1)
               | Inr u \<Rightarrow> emit [EvMoveCamera, EvRender] (snd (updatePhysics now1 now2 s1)))
         else emit [EvRender] s1)"
  by (simp add: animate_def Let_def split: prod.splits sum.splits)

lemma animate_fst:
  "fst (animate now1 now2 s) =
     (if isLoaded s
      then fst (updatePhysics now1 now2 (emit [EvRequestAnimationFrame] (s\<lparr>animating := True\<rparr>)))
      else Inr ())"
  by (cases "updatePhysics now1 now2 (emit [EvRequestAnimationFrame] (s\<lparr>animating := True\<rparr>))")
     (simp add: animate_def Let_def split: sum.splits)

lemma animate_fields [simp]:
  "isLoaded (snd (animate now1 now2 s)) = isLoaded s"
  "physicsInitialized (snd (animate now1 now2 s)) = physicsInitialized s"
  "engineInitialized (snd (animate now1 now2 s)) = engineInitialized s"
  by (simp_all add: animate_snd Let_def split: sum.splits)

lemma animate_phase:
  "collisionPhase (snd (animate now1 now2 s)) =
     collisionPhase (snd (updatePhysics now1 now2
        (emit [EvRequestAnimationFrame] (s\<lparr>animating := True\<rparr>))))"
  by (simp add: animate_snd Let_def updatePhysics_def split: sum.splits)

lemma startCycle_snd:
  "snd (startCycle now s) =
     (if physicsInitialized s
      then (case fst (beginNewCycle now s) of
              Inl e \<Rightarrow> snd (beginNewCycle now s)
            | Inr u \<Rightarrow> emit [logC LInfo ''Continuous hadron collision sequence initiated'' []]
                         (snd (beginNewCycle now s)))
      else emit [logC LDebug ''Waiting for physics initialization...'' [],
                 EvTimeoutStartCycle 500] s)"
  by (simp add: startCycle_def split: prod.splits sum.splits)

lemma startCycle_fst:
  "fst (startCycle now s) =
     (if physicsInitialized s then fst (beginNewCycle now s) else Inr ())"
  by (cases "beginNewCycle now s") (simp add: startCycle_def split: sum.splits)

lemma startCycle_fields [simp]:
  "isLoaded (snd (startCycle now s)) = isLoaded s"
  "physicsInitialized (snd (startCycle now s)) = physicsInitialized s"
  "engineInitialized (snd (startCycle now s)) = engineInitialized s"
  by (simp_all add: startCycle_snd split: sum.splits)

lemma startCycle_phase:
  "collisionPhase (snd (startCycle now s)) =
     (if physicsInitialized s then Setup else collisionPhase s)"
  by (simp add: startCycle_snd split: sum.splits)

lemma initAsync_fields [simp]:
  "isLoaded (initAsync r s) = (if r = None then True else isLoaded s)"
  "physicsInitialized (initAsync r s) = (if r = None then True else physicsInitialized s)"
  "engineInitialized (initAsync r s) = (if r = None then True else engineInitialized s)"
  "collisionPhase (initAsync r s) = collisionPhase s"
  "phaseStartTime (initAsync r s) = phaseStartTime s"
  "currentCycleNumber (initAsync r s) = currentCycleNumber s"
  by (simp_all add: initAsync_def startCollisionSequence_def Let_def split: option.splits)

lemma disposeC_fields [simp]:
  "isLoaded (disposeC s) = isLoaded s"
  "physicsInitialized (disposeC s) = physicsInitialized s"
  "engineInitialized (disposeC s) = False"
  "collisionPhase (disposeC s) = Setup"
  "phaseStartTime (disposeC s) = phaseStartTime s"
  "currentCycleNumber (disposeC s) = currentCycleNumber s"
  by (simp_all add: disposeC_def Let_def)

lemma reachableC_runC: "reachableC s \<Longrightarrow> reachableC (runC xs s)"
  by (induction xs arbitrary: s) (auto intro: reachableC.intros)

text \<open>
  Two facts hold in every reachable state: a loaded scene has its physics initialised
  (so the guard of \<open>updatePhysics\<close> passes whenever \<open>animate\<close> calls it), and the phase is
  never \<open>firing\<close>, which no assignment in the class produces.
\<close>

lemma stepC_phase:
  "collisionPhase (snd (stepC x s)) = collisionPhase s \<or>
   (\<exists>n1 n2. x = OpAnimate n1 n2) \<and>
     (collisionPhase s, collisionPhase (snd (stepC x s))) \<in>
       {(Setup, Physics), (Firing, Physics), (Physics, Cleanup), (Cleanup, Setup)} \<or>
   (x = OpDispose \<or> (\<exists>n. x = OpStartCycle n)) \<and> collisionPhase (snd (stepC x s)) = Setup"
proof (cases x)
  case (OpInitAsync r)
  then show ?thesis by simp
next
  case (OpStartCycle n)
  then show ?thesis by (simp add: startCycle_phase)
next
  case (OpAnimate n1 n2)
  from updatePhysics_phase [of n1 n2 "emit [EvRequestAnimationFrame] (s\<lparr>animating := True\<rparr>)"]
  show ?thesis by (simp add: OpAnimate animate_phase)
next
  case OpDispose
  then show ?thesis by simp
qed

lemma stepC_inv:
  assumes "(isLoaded s \<longrightarrow> physicsInitialized s) \<and> collisionPhase s \<noteq> Firing"
  shows "(isLoaded (snd (stepC x s)) \<longrightarrow> physicsInitialized (snd (stepC x s))) \<and>
         collisionPhase (snd (stepC x s)) \<noteq> Firing"
proof -
  have l: "isLoaded (snd (stepC x s)) \<longrightarrow> physicsInitialized (snd (stepC x s))"
    using assms by (cases x) simp_all
  from stepC_phase [of x s] assms have "collisionPhase (snd (stepC x s)) \<noteq> Firing"
    by auto
  with l show ?thesis by simp
qed

lemma reachableC_inv:
  "reachableC s \<Longrightarrow> (isLoaded s \<longrightarrow> physicsInitialized s) \<and> collisionPhase s \<noteq> Firing"
proof (induction rule: reachableC.induct)
  case reach_init
  show ?case by (simp add: initC_def)
next
  case (reach_step s x)
  then show ?case using stepC_inv by blast
qed

text \<open>
  C2 (as amended). In every reachable state the phase is not \<open>firing\<close>. \<open>advancePhase\<close>
  moves \<open>setup\<close> to \<open>physics\<close> and \<open>physics\<close> to \<open>cleanup\<close>, keeping the cycle number and
  throwing nothing, and in \<open>cleanup\<close> it is \<open>beginNewCycle\<close>, which sets the phase to
  \<open>setup\<close> and adds one to the cycle number; either way the phase start time becomes the
  clock reading. \<open>beginNewCycle\<close> on a scene whose physics is initialised logs the new
  cycle, clears the collision particles and sets up the random particles. And whatever
  happens to the scene, the phase either stays, or makes one of the three moves during
  \<open>animate\<close>, or is reset to \<open>setup\<close> by the start-up timer's \<open>beginNewCycle\<close> or by
  \<open>dispose\<close>.
\<close>

theorem phase_transitions:
  assumes "reachableC s"
  shows "collisionPhase s \<noteq> Firing \<and>
     collisionPhase (snd (advancePhase now s)) =
       (case collisionPhase s of Setup \<Rightarrow> Physics | Firing \<Rightarrow> Physics
        | Physics \<Rightarrow> Cleanup | Cleanup \<Rightarrow> Setup) \<and>
     phaseStartTime (snd (advancePhase now s)) = now \<and>
     (collisionPhase s = Cleanup \<longrightarrow>
        advancePhase now s = beginNewCycle now s \<and>
        currentCycleNumber (snd (advancePhase now s)) = currentCycleNumber s + 1) \<and>
     (collisionPhase s \<noteq> Cleanup \<longrightarrow>
        fst (advancePhase now s) = Inr () \<and>
        currentCycleNumber (snd (advancePhase now s)) = currentCycleNumber s) \<and>
     (physicsInitialized s \<and> engineInitialized s \<longrightarrow>
        beginNewCycle now s =
          (Inr (),
           emit [logC LInfo ''Starting collision cycle #{}''
                   [ArgNat (currentCycleNumber s + 1)],
                 EvClearCollisionParticles,
                 logC LDebug ''setupRandomParticles called, physicsInitialized: {}''
                   [ArgStr ''true''],
                 EvSetupRandomParticles]
             (s\<lparr>currentCycleNumber := currentCycleNumber s + 1,
                collisionPhase := Setup,
                phaseStartTime := now\<rparr>))) \<and>
     (collisionPhase (snd (stepC x s)) = collisionPhase s \<or>
      (\<exists>n1 n2. x = OpAnimate n1 n2) \<and>
        (collisionPhase s, collisionPhase (snd (stepC x s))) \<in>
          {(Setup, Physics), (Physics, Cleanup), (Cleanup, Setup)} \<or>
      (x = OpDispose \<or> (\<exists>n. x = OpStartCycle n)) \<and>
        collisionPhase (snd (stepC x s)) = Setup)"
proof -
  from assms have nf: "collisionPhase s \<noteq> Firing" using reachableC_inv by blast
  have tr: "collisionPhase (snd (stepC x s)) = collisionPhase s \<or>
      (\<exists>n1 n2. x = OpAnimate n1 n2) \<and>
        (collisionPhase s, collisionPhase (snd (stepC x s))) \<in>
          {(Setup, Physics), (Physics, Cleanup), (Cleanup, Setup)} \<or>
      (x = OpDispose \<or> (\<exists>n. x = OpStartCycle n)) \<and>
        collisionPhase (snd (stepC x s)) = Setup"
    using nf stepC_phase [of x s] by auto
  have cl: "collisionPhase s = Cleanup \<longrightarrow>
        advancePhase now s = beginNewCycle now s \<and>
        currentCycleNumber (snd (advancePhase now s)) = currentCycleNumber s + 1"
    by (simp add: advancePhase_def)
  have nc: "collisionPhase s \<noteq> Cleanup \<longrightarrow>
        fst (advancePhase now s) = Inr () \<and>
        currentCycleNumber (snd (advancePhase now s)) = currentCycleNumber s"
    by (simp add: advancePhase_fst advancePhase_cycle)
  show ?thesis
    using nf tr cl nc advancePhase_phase [of now s] advancePhase_start [of now s]
      beginNewCycle_ready [of s now]
    by blast
qed

theorem phase_transitions_witness:
  "collisionPhase (runC [OpInitAsync None, OpStartCycle 1700000000000,
      OpAnimate 1700000000500 1700000000501, OpAnimate 1700000008501 1700000008502] initC)
     = Cleanup \<and>
   advancePhase 1700000009502 (runC [OpInitAsync None, OpStartCycle 1700000000000,
      OpAnimate 1700000000500 1700000000501, OpAnimate 1700000008501 1700000008502] initC)
     = beginNewCycle 1700000009502 (runC [OpInitAsync None, OpStartCycle 1700000000000,
      OpAnimate 1700000000500 1700000000501, OpAnimate 1700000008501 1700000008502] initC) \<and>
   currentCycleNumber (snd (advancePhase 1700000009502
     (runC [OpInitAsync None, OpStartCycle 1700000000000,
      OpAnimate 1700000000500 1700000000501, OpAnimate 1700000008501 1700000008502] initC)))
     = 2 \<and>
   fst (advancePhase 1700000009502 (runC [OpInitAsync None, OpStartCycle 1700000000000,
      OpAnimate 1700000000500 1700000000501, OpAnimate 1700000008501 1700000008502] initC))
     = Inr () \<and>
   collisionPhase (snd (stepC (OpAnimate 1700000009502 1700000009503)
     (runC [OpInitAsync None, OpStartCycle 1700000000000,
      OpAnimate 1700000000500 1700000000501, OpAnimate 1700000008501 1700000008502] initC)))
     = Setup \<and>
   fst (advancePhase 5 (runC [OpInitAsync None, OpStartCycle 1700000000000] initC)) = Inr () \<and>
   collisionPhase (snd (advancePhase 5
     (runC [OpInitAsync None, OpStartCycle 1700000000000] initC))) = Physics"
proof -
  define s0 where "s0 = runC [OpInitAsync None, OpStartCycle 1700000000000] initC"
  define s where "s = runC [OpAnimate 1700000000500 1700000000501,
                            OpAnimate 1700000008501 1700000008502] s0"
  have r0: "reachableC s0" unfolding s0_def by (rule reachableC_runC) (rule reach_init)
  have r: "reachableC s" unfolding s_def by (rule reachableC_runC) (rule r0)
  have p0: "collisionPhase s0 = Setup" by (simp add: s0_def startCycle_phase)
  have f0: "isLoaded s0" "physicsInitialized s0" "engineInitialized s0"
    "phaseStartTime s0 = 1700000000000" "currentCycleNumber s0 = 1"
    by (simp_all add: s0_def startCycle_snd beginNewCycle_fst initC_def)
  define s1 where "s1 = snd (animate 1700000000500 1700000000501 s0)"
  have f1: "isLoaded s1" "physicsInitialized s1" "engineInitialized s1"
    by (simp_all add: s1_def f0)
  have u1: "collisionPhase s1 = Physics \<and> phaseStartTime s1 = 1700000000501 \<and>
            currentCycleNumber s1 = 1"
    by (simp add: s1_def animate_snd Let_def updatePhysics_cases f0 p0 advancePhase_fst
          advancePhase_phase advancePhase_start advancePhase_cycle)
  have s_eq: "s = snd (animate 1700000008501 1700000008502 s1)"
    by (simp add: s_def s1_def)
  have p: "collisionPhase s = Cleanup" "currentCycleNumber s = 1"
    by (simp_all add: s_eq animate_snd Let_def updatePhysics_cases f1 u1 advancePhase_fst
          advancePhase_phase advancePhase_start advancePhase_cycle)
  have a: "collisionPhase (snd (stepC (OpAnimate 1700000009502 1700000009503) s)) \<noteq> Cleanup"
  proof -
    have l: "isLoaded s" "physicsInitialized s" by (simp_all add: s_eq f1)
    have t: "phaseStartTime s = 1700000008502"
      by (simp add: s_eq animate_snd Let_def updatePhysics_cases f1 u1 advancePhase_fst
            advancePhase_start)
    show ?thesis
      by (simp add: animate_phase updatePhysics_cases l p t advancePhase_phase)
  qed
  have g: "physicsInitialized s" "engineInitialized s" by (simp_all add: s_eq f1)
  from phase_transitions [OF r, of 1700000009502 "OpAnimate 1700000009502 1700000009503"] a p g
  have c: "advancePhase 1700000009502 s = beginNewCycle 1700000009502 s \<and>
        currentCycleNumber (snd (advancePhase 1700000009502 s)) = 2 \<and>
        fst (advancePhase 1700000009502 s) = Inr () \<and>
        collisionPhase (snd (stepC (OpAnimate 1700000009502 1700000009503) s)) = Setup"
    by auto
  from phase_transitions [OF r0, of 5 OpDispose] p0
  have d: "fst (advancePhase 5 s0) = Inr () \<and> collisionPhase (snd (advancePhase 5 s0)) = Physics"
    by simp
  have e: "s = runC [OpInitAsync None, OpStartCycle 1700000000000,
      OpAnimate 1700000000500 1700000000501, OpAnimate 1700000008501 1700000008502] initC"
    by (simp add: s_def s0_def)
  from p(1) c d show ?thesis unfolding e [symmetric] s0_def [symmetric] by blast
qed

text \<open>
  C2 as stated fails: a move outside the cycle occurs. The scene finishes loading, a frame
  is drawn before the start-up timer fires (\<open>phaseStartTime\<close> is still \<open>0\<close>, so the frame
  advances \<open>setup\<close> to \<open>physics\<close>), then the timer runs \<open>beginNewCycle\<close>: the phase goes
  from \<open>physics\<close> to \<open>setup\<close>.
\<close>

theorem phase_reset_counterexample:
  "reachableC (runC [OpInitAsync None, OpAnimate 1700000000000 1700000000001] initC) \<and>
   collisionPhase (runC [OpInitAsync None, OpAnimate 1700000000000 1700000000001] initC)
     = Physics \<and>
   stepC (OpStartCycle 1700000002000)
     (runC [OpInitAsync None, OpAnimate 1700000000000 1700000000001] initC) =
   startCycle 1700000002000
     (runC [OpInitAsync None, OpAnimate 1700000000000 1700000000001] initC) \<and>
   fst (startCycle 1700000002000
     (runC [OpInitAsync None, OpAnimate 1700000000000 1700000000001] initC)) = Inr () \<and>
   collisionPhase (snd (startCycle 1700000002000
     (runC [OpInitAsync None, OpAnimate 1700000000000 1700000000001] initC))) = Setup"
proof -
  define s0 where "s0 = runC [OpInitAsync None] initC"
  have f0: "isLoaded s0" "physicsInitialized s0" "engineInitialized s0"
    "phaseStartTime s0 = 0" "collisionPhase s0 = Setup"
    by (simp_all add: s0_def initC_def)
  define s where "s = runC [OpInitAsync None, OpAnimate 1700000000000 1700000000001] initC"
  have s_eq: "s = snd (animate 1700000000000 1700000000001 s0)" by (simp add: s_def s0_def)
  have r: "reachableC s" unfolding s_def by (rule reachableC_runC) (rule reach_init)
  have p: "collisionPhase s = Physics"
    by (simp add: s_eq animate_phase updatePhysics_cases f0 advancePhase_phase)
  have f: "physicsInitialized s" "engineInitialized s" by (simp_all add: s_eq f0)
  have st: "fst (startCycle 1700000002000 s) = Inr ()"
    by (simp add: startCycle_fst beginNewCycle_fst f)
  have ph: "collisionPhase (snd (startCycle 1700000002000 s)) = Setup"
    by (simp add: startCycle_phase f)
  show ?thesis using r p st ph unfolding s_def by simp
qed

text \<open>
  C3, evaluated where the code leaves the claim. The scene is constructed and finishes
  loading; \<open>startCollisionSequence\<close> has set \<open>isLoaded\<close> and
  left \<open>phaseStartTime\<close> at its initialiser \<open>0\<close>, since \<open>beginNewCycle\<close> runs only when the
  start-up timer fires two seconds later. The host's first \<open>animate\<close>, at the clock reading
  \<open>1700000000101\<close>, computes \<open>phaseElapsed\<close> as that reading minus \<open>0\<close>, finds it at least
  \<open>500\<close>, and advances \<open>setup\<close> to \<open>physics\<close>, however short a time the scene has existed;
  one millisecond later the same update keeps the phase, the stored start time being
  recent.
\<close>

theorem first_update_leaves_setup:
  "isLoaded (runC [OpInitAsync None] initC) \<and>
   collisionPhase (runC [OpInitAsync None] initC) = Setup \<and>
   phaseStartTime (runC [OpInitAsync None] initC) = 0 \<and>
   currentCycleNumber (runC [OpInitAsync None] initC) = 0 \<and>
   fst (stepC (OpAnimate 1700000000101 1700000000101) (runC [OpInitAsync None] initC))
     = Inr () \<and>
   collisionPhase (runC [OpInitAsync None, OpAnimate 1700000000101 1700000000101] initC)
     = Physics \<and>
   phaseStartTime (runC [OpInitAsync None, OpAnimate 1700000000101 1700000000101] initC)
     = 1700000000101 \<and>
   collisionPhase (runC [OpInitAsync None, OpAnimate 1700000000101 1700000000101,
      OpAnimate 1700000000102 1700000000102] initC) = Physics"
proof -
  define s0 where "s0 = runC [OpInitAsync None] initC"
  have f0: "isLoaded s0" "physicsInitialized s0" "engineInitialized s0"
    "phaseStartTime s0 = 0" "collisionPhase s0 = Setup" "currentCycleNumber s0 = 0"
    by (simp_all add: s0_def initC_def)
  have u: "fst (stepC (OpAnimate 1700000000101 1700000000101) s0) = Inr ()"
    by (simp add: animate_fst updatePhysics_cases f0 advancePhase_fst)
  define s1 where "s1 = snd (animate 1700000000101 1700000000101 s0)"
  have f1: "isLoaded s1" "physicsInitialized s1" by (simp_all add: s1_def f0)
  have p1: "collisionPhase s1 = Physics" "phaseStartTime s1 = 1700000000101"
    by (simp_all add: s1_def animate_snd Let_def updatePhysics_cases f0 advancePhase_fst
          advancePhase_phase advancePhase_start)
  have p2: "collisionPhase (snd (animate 1700000000102 1700000000102 s1)) = Physics"
    by (simp add: animate_phase updatePhysics_cases f1 p1 Let_def)
  have e1: "runC [OpInitAsync None, OpAnimate 1700000000101 1700000000101] initC = s1"
    by (simp add: s1_def s0_def)
  have e2: "runC [OpInitAsync None, OpAnimate 1700000000101 1700000000101,
      OpAnimate 1700000000102 1700000000102] initC
      = snd (animate 1700000000102 1700000000102 s1)"
    by (simp add: s1_def s0_def)
  show ?thesis
    unfolding e1 e2 s0_def [symmetric] using f0 u p1 p2 by simp
qed

text \<open>
  C4. Whatever the state, the key of \<open>collisionPhase\<close> is one of the four keys of
  \<open>phaseDurations\<close>, so the lookup made by \<open>updatePhysics\<close> finds an entry: the one listed.
\<close>

theorem phaseDurations_lookup_defined:
  "phase_key (collisionPhase s) \<in> set (map fst phaseDurations) \<and>
   set (map fst phaseDurations) = {''setup'', ''firing'', ''physics'', ''cleanup''} \<and>
   map_of phaseDurations (phase_key (collisionPhase s)) =
     Some (case collisionPhase s of Setup \<Rightarrow> 500 | Firing \<Rightarrow> 0
           | Physics \<Rightarrow> 8000 | Cleanup \<Rightarrow> 1000)"
  by (cases "collisionPhase s") (auto simp: phaseDurations_def)

section \<open>PhysicsEngine: invariant and properties\<close>

lemma map_set_absent: "k \<notin> fst ` set xs \<Longrightarrow> map_set k v xs = xs @ [(k, v)]"
  by (induction xs) auto

lemma map_of_map_set: "map_of (map_set k v xs) = (map_of xs)(k \<mapsto> v)"
  by (induction xs) (auto simp: fun_eq_iff)

lemma map_delete_absent: "map_of xs k = None \<Longrightarrow> map_delete k xs = xs"
  unfolding map_delete_def
  by (induction xs) (auto split: if_splits)

lemma map_of_absent_iff: "map_of xs k = None \<longleftrightarrow> k \<notin> fst ` set xs"
  by (simp add: map_of_eq_None_iff)

lemma logP_fields [simp]:
  "world (logP l m as s) = world s"
  "bodies (logP l m as s) = bodies s"
  "nextBodyId (logP l m as s) = nextBodyId s"
  "initialized (logP l m as s) = initialized s"
  "meshes (logP l m as s) = meshes s"
  by (simp_all add: logP_def)

lemma engine_inv_logP [simp]: "engine_inv (logP l m as s) = engine_inv s"
  by (simp add: engine_inv_def)

lemma engine_inv_pristine: "engine_inv (enginePristine h)"
  by (simp add: engine_inv_def enginePristine_def)

lemma engine_inv_init: "engine_inv s \<Longrightarrow> engine_inv (snd (init outcome s))"
  by (auto simp: init_def engine_inv_def split: option.splits)

lemma add_body_inv:
  assumes "engine_inv s" and "world s \<noteq> None"
  shows "engine_inv (s\<lparr>world := Some w2, nextBodyId := Suc (nextBodyId s),
            bodies := map_set (nextBodyId s) \<lparr> rigidBody = h, mesh = m, body_id = nextBodyId s \<rparr>
                        (bodies s)\<rparr>)"
proof -
  from assms(1) have fresh: "nextBodyId s \<notin> fst ` set (bodies s)"
    by (auto simp: engine_inv_def)
  show ?thesis
    using assms by (auto simp: engine_inv_def map_set_absent [OF fresh] less_Suc_eq)
qed

lemma engine_inv_addStaticBox: "engine_inv s \<Longrightarrow> engine_inv (snd (addStaticBox m p sz s))"
  by (auto simp: addStaticBox_def Let_def split: option.splits prod.splits intro: add_body_inv)

lemma engine_inv_addDynamicSphere:
  "engine_inv s \<Longrightarrow> engine_inv (snd (addDynamicSphere m p r ma re s))"
  by (auto simp: addDynamicSphere_def Let_def split: option.splits prod.splits
           intro: add_body_inv)

lemma onBody_fields:
  "bodies (snd (onBody h f s)) = bodies s"
  "nextBodyId (snd (onBody h f s)) = nextBodyId s"
  "initialized (snd (onBody h f s)) = initialized s"
  "meshes (snd (onBody h f s)) = meshes s"
  "(world (snd (onBody h f s)) = None) = (world s = None)"
  by (simp_all add: onBody_def split: option.splits)

lemma engine_inv_onBody: "engine_inv s \<Longrightarrow> engine_inv (snd (onBody h f s))"
  by (simp add: engine_inv_def onBody_fields)

lemma engine_inv_setters:
  assumes "engine_inv s"
  shows "engine_inv (snd (setVelocity b v s))"
    and "engine_inv (snd (setPosition b v s))"
    and "engine_inv (snd (setAngularVelocity b v s))"
    and "engine_inv (snd (addImpulse R b v s))"
  using assms
  by (auto simp: setVelocity_def setPosition_def setAngularVelocity_def addImpulse_def
                 engine_inv_onBody split: option.splits)

lemma engine_inv_step: "engine_inv s \<Longrightarrow> engine_inv (step R dt s)"
  by (auto simp: step_def engine_inv_def Let_def split: option.splits)

lemma removeBody_fields:
  "nextBodyId (removeBody k s) = nextBodyId s"
  "initialized (removeBody k s) = initialized s"
  "meshes (removeBody k s) = meshes s"
  "(world (removeBody k s) = None) = (world s = None)"
  "bodies (removeBody k s) = (if world s = None then bodies s else map_delete k (bodies s))"
  by (auto simp: removeBody_def map_delete_absent split: option.splits)

lemma engine_inv_removeBody: "engine_inv s \<Longrightarrow> engine_inv (removeBody k s)"
  by (auto simp: engine_inv_def removeBody_fields map_delete_def distinct_map_filter)

lemma fold_removeBody:
  "nextBodyId (foldl (\<lambda>s' k. removeBody k s') s ks) = nextBodyId s \<and>
   initialized (foldl (\<lambda>s' k. removeBody k s') s ks) = initialized s \<and>
   meshes (foldl (\<lambda>s' k. removeBody k s') s ks) = meshes s \<and>
   (world (foldl (\<lambda>s' k. removeBody k s') s ks) = None) = (world s = None) \<and>
   bodies (foldl (\<lambda>s' k. removeBody k s') s ks) =
     (if world s = None then bodies s else filter (\<lambda>kv. fst kv \<notin> set ks) (bodies s))"
proof (induction ks arbitrary: s)
  case Nil
  show ?case by simp
next
  case (Cons k ks)
  show ?case
    using Cons.IH [of "removeBody k s"]
    by (auto simp: removeBody_fields map_delete_def intro: filter_cong)
qed

lemma clearAllBodies_fields:
  "nextBodyId (clearAllBodies s) = nextBodyId s"
  "initialized (clearAllBodies s) = initialized s"
  "meshes (clearAllBodies s) = meshes s"
  "(world (clearAllBodies s) = None) = (world s = None)"
  "bodies (clearAllBodies s) = (if world s = None then bodies s else [])"
  using fold_removeBody [of s "map fst (bodies s)"]
  by (auto simp: clearAllBodies_def filter_empty_conv)

lemma engine_inv_clearAllBodies: "engine_inv s \<Longrightarrow> engine_inv (clearAllBodies s)"
  by (auto simp: engine_inv_def clearAllBodies_fields)

lemma engine_inv_dispose: "engine_inv s \<Longrightarrow> engine_inv (dispose s)"
  by (auto simp: engine_inv_def dispose_def clearAllBodies_fields split: option.splits)

lemma engine_inv_stepP: "engine_inv s \<Longrightarrow> engine_inv (snd (stepP R x s))"
proof (cases x)
  case (OpAddStaticBox m p sz)
  assume "engine_inv s"
  from engine_inv_addStaticBox [OF this, of m p sz] show ?thesis
    by (auto simp: OpAddStaticBox split: prod.splits sum.splits)
next
  case (OpAddDynamicSphere m p r ma re)
  assume "engine_inv s"
  from engine_inv_addDynamicSphere [OF this, of m p r ma re] show ?thesis
    by (auto simp: OpAddDynamicSphere split: prod.splits sum.splits)
next
  case (OpMeshWrite a m)
  assume "engine_inv s"
  then show ?thesis by (simp add: OpMeshWrite engine_inv_def)
qed (simp_all add: engine_inv_init engine_inv_setters engine_inv_step engine_inv_removeBody
       engine_inv_clearAllBodies engine_inv_dispose)

lemma reachableP_inv: "reachableP R s \<Longrightarrow> engine_inv s"
  by (induction rule: reachableP.induct) (simp_all add: engine_inv_pristine engine_inv_stepP)

lemma reachableP_runP: "reachableP R s \<Longrightarrow> reachableP R (runP R xs s)"
  by (induction xs arbitrary: s) (auto intro: reachableP.intros)

lemma foldl_syncMesh_other:
  "\<forall>b' \<in> set bs. mesh b' \<noteq> a \<Longrightarrow> foldl (syncMesh w) g bs a = g a"
  by (induction bs arbitrary: g) (auto simp: syncMesh_def)

lemma foldl_syncMesh_last:
  assumes "i < length bs"
    and "\<forall>j. i < j \<and> j < length bs \<longrightarrow> mesh (bs ! j) \<noteq> mesh (bs ! i)"
  shows "foldl (syncMesh w) h bs (mesh (bs ! i)) =
           (h (mesh (bs ! i)))\<lparr>position := translation (rigidBodies w (rigidBody (bs ! i))),
                                quaternion := rotation (rigidBodies w (rigidBody (bs ! i)))\<rparr>"
  using assms
proof (induction bs arbitrary: h i)
  case Nil
  then show ?case by simp
next
  case (Cons b bs)
  show ?case
  proof (cases i)
    case 0
    have later: "\<forall>b' \<in> set bs. mesh b' \<noteq> mesh b"
    proof
      fix b' assume "b' \<in> set bs"
      then obtain j where j: "j < length bs" "bs ! j = b'" by (auto simp: in_set_conv_nth)
      with Cons.prems(2) [rule_format, of "Suc j"] 0 show "mesh b' \<noteq> mesh b" by simp
    qed
    have e1: "foldl (syncMesh w) (syncMesh w h b) bs (mesh b) = syncMesh w h b (mesh b)"
      by (rule foldl_syncMesh_other [OF later])
    have e2: "syncMesh w h b (mesh b) =
        (h (mesh b))\<lparr>position := translation (rigidBodies w (rigidBody b)),
                      quaternion := rotation (rigidBodies w (rigidBody b))\<rparr>"
      by (simp add: syncMesh_def)
    show ?thesis using 0 by (simp add: e1 e2)
  next
    case (Suc k)
    have k: "k < length bs" using Cons.prems(1) Suc by simp
    have nl: "\<forall>j. k < j \<and> j < length bs \<longrightarrow> mesh (bs ! j) \<noteq> mesh (bs ! k)"
    proof (intro allI impI)
      fix j assume "k < j \<and> j < length bs"
      with Cons.prems(2) [rule_format, of "Suc j"] Suc show "mesh (bs ! j) \<noteq> mesh (bs ! k)"
        by simp
    qed
    have e3: "(syncMesh w h b (mesh (bs ! k)))\<lparr>position := P, quaternion := Q\<rparr> =
              (h (mesh (bs ! k)))\<lparr>position := P, quaternion := Q\<rparr>" for P Q
      by (simp add: syncMesh_def)
    from Cons.IH [OF k nl, of "syncMesh w h b"] Suc
    show ?thesis by (simp add: e3)
  qed
qed

text \<open>
  C1 (as amended). After \<open>step\<close> on any reachable engine, a registered body whose mesh is
  not also the mesh of a body later in the map's iteration order has its mesh position
  equal to the translation, and its mesh quaternion equal to the rotation, that the world
  reports for its rigid body after the step. When no two registered bodies share a mesh
  this is every registered body.
\<close>

theorem step_syncs_meshes:
  assumes "reachableP R s"
    and "i < length (bodies s)"
    and "\<forall>j. i < j \<and> j < length (bodies s) \<longrightarrow>
             mesh (snd (bodies s ! j)) \<noteq> mesh (snd (bodies s ! i))"
  shows "\<exists>w'. world (step R dt s) = Some w' \<and> bodies (step R dt s) = bodies s \<and>
           position (meshes (step R dt s) (mesh (snd (bodies s ! i)))) =
             translation (rigidBodies w' (rigidBody (snd (bodies s ! i)))) \<and>
           quaternion (meshes (step R dt s) (mesh (snd (bodies s ! i)))) =
             rotation (rigidBodies w' (rigidBody (snd (bodies s ! i))))"
proof -
  from assms(1) have inv: "engine_inv s" by (rule reachableP_inv)
  from assms(2) have ne: "bodies s \<noteq> []" by auto
  with inv obtain w where w: "world s = Some w" and ini: "initialized s"
    by (auto simp: engine_inv_def)
  let ?bs = "map snd (bodies s)"
  have i: "i < length ?bs" using assms(2) by simp
  have nl: "\<forall>j. i < j \<and> j < length ?bs \<longrightarrow> mesh (?bs ! j) \<noteq> mesh (?bs ! i)"
    using assms(2,3) by simp
  from foldl_syncMesh_last [OF i nl, of "world_step R w" "meshes s"] assms(2)
  show ?thesis by (simp add: step_def w ini Let_def)
qed

text \<open>
  C1 as stated fails when two bodies share a mesh. After
  \<open>init\<close>, \<open>addStaticBox(m, (0,0,0), ..)\<close>, \<open>addStaticBox(m, (1,0,0), ..)\<close> with the same
  mesh \<open>m\<close> and a step that moves nothing, body 0 is registered with mesh 0, the adapter
  reports \<open>(0,0,0)\<close> as its position, and its mesh is at \<open>(1,0,0)\<close>.
\<close>

theorem step_shared_mesh_counterexample:
  "map_of (bodies (runP \<lparr>world_step = (\<lambda>w. w), applyImpulse = (\<lambda>v b. b)\<rparr>
      [OpInit None, OpAddStaticBox 0 (0, 0, 0) (1, 1, 1), OpAddStaticBox 0 (1, 0, 0) (1, 1, 1),
       OpStep 0]
      (enginePristine (\<lambda>a. \<lparr>position = (0, 0, 0), quaternion = (0, 0, 0, 1)\<rparr>)))) 0
     = Some \<lparr>rigidBody = 0, mesh = 0, body_id = 0\<rparr> \<and>
   getPosition 0 (runP \<lparr>world_step = (\<lambda>w. w), applyImpulse = (\<lambda>v b. b)\<rparr>
      [OpInit None, OpAddStaticBox 0 (0, 0, 0) (1, 1, 1), OpAddStaticBox 0 (1, 0, 0) (1, 1, 1),
       OpStep 0]
      (enginePristine (\<lambda>a. \<lparr>position = (0, 0, 0), quaternion = (0, 0, 0, 1)\<rparr>)))
     = Inr (Some (0, 0, 0)) \<and>
   position (meshes (runP \<lparr>world_step = (\<lambda>w. w), applyImpulse = (\<lambda>v b. b)\<rparr>
      [OpInit None, OpAddStaticBox 0 (0, 0, 0) (1, 1, 1), OpAddStaticBox 0 (1, 0, 0) (1, 1, 1),
       OpStep 0]
      (enginePristine (\<lambda>a. \<lparr>position = (0, 0, 0), quaternion = (0, 0, 0, 1)\<rparr>))) 0)
     = (1, 0, 0)"
  by (simp add: init_def addStaticBox_def step_def getPosition_def enginePristine_def
        new_world_def new_body_def createRigidBody_def createCollider_def syncMesh_def
        logP_def Let_def)

lemmas engine_defs = init_def addStaticBox_def addDynamicSphere_def step_def getPosition_def
  getVelocity_def enginePristine_def new_world_def new_body_def createRigidBody_def
  createCollider_def syncMesh_def logP_def removeBody_def map_delete_def removeRigidBody_def
  Let_def

theorem step_syncs_meshes_witness:
  "reachableP \<lparr>world_step = (\<lambda>w. w), applyImpulse = (\<lambda>v b. b)\<rparr>
     (runP \<lparr>world_step = (\<lambda>w. w), applyImpulse = (\<lambda>v b. b)\<rparr>
        [OpInit None, OpAddStaticBox 0 (2, 3, 4) (1, 1, 1)]
        (enginePristine (\<lambda>a. \<lparr>position = (0, 0, 0), quaternion = (0, 0, 0, 1)\<rparr>))) \<and>
   position (meshes (step \<lparr>world_step = (\<lambda>w. w), applyImpulse = (\<lambda>v b. b)\<rparr> 0
     (runP \<lparr>world_step = (\<lambda>w. w), applyImpulse = (\<lambda>v b. b)\<rparr>
        [OpInit None, OpAddStaticBox 0 (2, 3, 4) (1, 1, 1)]
        (enginePristine (\<lambda>a. \<lparr>position = (0, 0, 0), quaternion = (0, 0, 0, 1)\<rparr>)))) 0)
     = (2, 3, 4)"
proof -
  define R :: rapier where "R = \<lparr>world_step = (\<lambda>w. w), applyImpulse = (\<lambda>v b. b)\<rparr>"
  define s where "s = runP R [OpInit None, OpAddStaticBox 0 (2, 3, 4) (1, 1, 1)]
        (enginePristine (\<lambda>a. \<lparr>position = (0, 0, 0), quaternion = (0, 0, 0, 1)\<rparr>))"
  have r: "reachableP R s" unfolding s_def by (rule reachableP_runP) (rule reachP_init)
  have b: "bodies s = [(0, \<lparr>rigidBody = 0, mesh = 0, body_id = 0\<rparr>)]"
    by (simp add: s_def engine_defs)
  have i: "0 < length (bodies s)" by (simp add: b)
  have nl: "\<forall>j. 0 < j \<and> j < length (bodies s) \<longrightarrow>
              mesh (snd (bodies s ! j)) \<noteq> mesh (snd (bodies s ! 0))" by (auto simp: b)
  have w: "world (step R 0 s) = Some w' \<Longrightarrow> translation (rigidBodies w' 0) = (2, 3, 4)" for w'
    by (auto simp: s_def R_def engine_defs)
  from step_syncs_meshes [OF r i nl, of 0] w
  have "position (meshes (step R 0 s) 0) = (2, 3, 4)" by (auto simp: b)
  with r show ?thesis unfolding s_def R_def by simp
qed

text \<open>
  C8. For a \<open>bodyId\<close> that is not a key of the body map: \<open>getVelocity\<close> and
  \<open>getPosition\<close> return \<open>null\<close>; \<open>setVelocity\<close>, \<open>setPosition\<close> and
  \<open>setAngularVelocity\<close> return normally and change nothing but the log, to which they
  add one warning; \<open>addImpulse\<close> and \<open>removeBody\<close> return the state as it was.
\<close>

theorem missing_body_noop:
  assumes "map_of (bodies s) bodyId = None"
  shows "getVelocity bodyId s = Inr None \<and>
         getPosition bodyId s = Inr None \<and>
         setVelocity bodyId v s =
           (Inr (), s\<lparr>plog := plog s @ [LogEntry LWarn ''Physics body {} not found''
                                          [ArgNat bodyId] ''PhysicsEngine'']\<rparr>) \<and>
         setPosition bodyId v s =
           (Inr (), s\<lparr>plog := plog s @ [LogEntry LWarn ''Physics body {} not found''
                                          [ArgNat bodyId] ''PhysicsEngine'']\<rparr>) \<and>
         setAngularVelocity bodyId v s =
           (Inr (), s\<lparr>plog := plog s @ [LogEntry LWarn ''Physics body {} not found''
                                          [ArgNat bodyId] ''PhysicsEngine'']\<rparr>) \<and>
         addImpulse R bodyId v s = (Inr (), s) \<and>
         removeBody bodyId s = s"
  using assms
  by (simp add: getVelocity_def getPosition_def setVelocity_def setPosition_def
        setAngularVelocity_def addImpulse_def removeBody_def logP_def)

theorem missing_body_noop_witness:
  "map_of (bodies (runP \<lparr>world_step = (\<lambda>w. w), applyImpulse = (\<lambda>v b. b)\<rparr>
        [OpInit None, OpAddStaticBox 0 (2, 3, 4) (1, 1, 1)]
        (enginePristine (\<lambda>a. \<lparr>position = (0, 0, 0), quaternion = (0, 0, 0, 1)\<rparr>)))) 5 = None \<and>
   getVelocity 5 (runP \<lparr>world_step = (\<lambda>w. w), applyImpulse = (\<lambda>v b. b)\<rparr>
        [OpInit None, OpAddStaticBox 0 (2, 3, 4) (1, 1, 1)]
        (enginePristine (\<lambda>a. \<lparr>position = (0, 0, 0), quaternion = (0, 0, 0, 1)\<rparr>))) = Inr None \<and>
   removeBody 5 (runP \<lparr>world_step = (\<lambda>w. w), applyImpulse = (\<lambda>v b. b)\<rparr>
        [OpInit None, OpAddStaticBox 0 (2, 3, 4) (1, 1, 1)]
        (enginePristine (\<lambda>a. \<lparr>position = (0, 0, 0), quaternion = (0, 0, 0, 1)\<rparr>))) =
     runP \<lparr>world_step = (\<lambda>w. w), applyImpulse = (\<lambda>v b. b)\<rparr>
        [OpInit None, OpAddStaticBox 0 (2, 3, 4) (1, 1, 1)]
        (enginePristine (\<lambda>a. \<lparr>position = (0, 0, 0), quaternion = (0, 0, 0, 1)\<rparr>))"
proof -
  define s where "s = runP \<lparr>world_step = (\<lambda>w. w), applyImpulse = (\<lambda>v b. b)\<rparr>
        [OpInit None, OpAddStaticBox 0 (2, 3, 4) (1, 1, 1)]
        (enginePristine (\<lambda>a. \<lparr>position = (0, 0, 0), quaternion = (0, 0, 0, 1)\<rparr>))"
  have b: "bodies s = [(0, \<lparr>rigidBody = 0, mesh = 0, body_id = 0\<rparr>)]"
    by (simp add: s_def engine_defs)
  have m: "map_of (bodies s) 5 = None" by (simp add: b)
  from missing_body_noop [OF m] m
  have "map_of (bodies s) 5 = None \<and> getVelocity 5 s = Inr None \<and> removeBody 5 s = s"
    by simp
  then show ?thesis unfolding s_def .
qed

lemma nextBodyId_init: "nextBodyId (snd (init outcome s)) = nextBodyId s"
  by (simp add: init_def split: option.splits)

lemma nextBodyId_setters:
  "nextBodyId (snd (setVelocity b v s)) = nextBodyId s"
  "nextBodyId (snd (setPosition b v s)) = nextBodyId s"
  "nextBodyId (snd (setAngularVelocity b v s)) = nextBodyId s"
  "nextBodyId (snd (addImpulse R b v s)) = nextBodyId s"
  by (simp_all add: setVelocity_def setPosition_def setAngularVelocity_def addImpulse_def
        onBody_fields split: option.splits)

lemma nextBodyId_step: "nextBodyId (step R dt s) = nextBodyId s"
  by (simp add: step_def Let_def split: option.splits)

lemma nextBodyId_dispose: "nextBodyId (dispose s) = nextBodyId s"
  by (simp add: dispose_def clearAllBodies_fields split: option.splits)

lemma addStaticBox_Inr:
  assumes "addStaticBox m p sz s = (Inr i, s')"
  shows "i = nextBodyId s \<and> nextBodyId s' = Suc i \<and>
         (\<exists>h. bodies s' = map_set i \<lparr>rigidBody = h, mesh = m, body_id = i\<rparr> (bodies s))"
  using assms
  by (auto simp: addStaticBox_def Let_def split: option.splits if_splits prod.splits)

lemma addStaticBox_Inl: "addStaticBox m p sz s = (Inl e, s') \<Longrightarrow> s' = s"
  by (auto simp: addStaticBox_def Let_def split: option.splits if_splits prod.splits)

lemma addDynamicSphere_Inr:
  assumes "addDynamicSphere m p r ma re s = (Inr i, s')"
  shows "i = nextBodyId s \<and> nextBodyId s' = Suc i \<and>
         (\<exists>h. bodies s' = map_set i \<lparr>rigidBody = h, mesh = m, body_id = i\<rparr> (bodies s))"
  using assms
  by (auto simp: addDynamicSphere_def Let_def split: option.splits if_splits prod.splits)

lemma addDynamicSphere_Inl: "addDynamicSphere m p r ma re s = (Inl e, s') \<Longrightarrow> s' = s"
  by (auto simp: addDynamicSphere_def Let_def split: option.splits if_splits prod.splits)

lemma stepP_nextBodyId:
  "(case fst (stepP R x s) of
      None \<Rightarrow> nextBodyId (snd (stepP R x s)) = nextBodyId s
    | Some i \<Rightarrow> i = nextBodyId s \<and> nextBodyId (snd (stepP R x s)) = Suc i)"
proof (cases x)
  case (OpAddStaticBox m p sz)
  show ?thesis
    using addStaticBox_Inr [of m p sz s] addStaticBox_Inl [of m p sz s]
    by (cases "addStaticBox m p sz s") (auto simp: OpAddStaticBox split: sum.splits)
next
  case (OpAddDynamicSphere m p r ma re)
  show ?thesis
    using addDynamicSphere_Inr [of m p r ma re s] addDynamicSphere_Inl [of m p r ma re s]
    by (cases "addDynamicSphere m p r ma re s") (auto simp: OpAddDynamicSphere split: sum.splits)
qed (simp_all add: nextBodyId_init nextBodyId_setters nextBodyId_step removeBody_fields
       clearAllBodies_fields nextBodyId_dispose)

lemma returnedIds_ge: "i \<in> set (returnedIds R xs s) \<Longrightarrow> nextBodyId s \<le> i"
proof (induction xs arbitrary: s)
  case Nil
  then show ?case by simp
next
  case (Cons x xs)
  show ?case
    using Cons.prems Cons.IH [of "snd (stepP R x s)"] stepP_nextBodyId [of R x s]
    by (cases "fst (stepP R x s)") auto
qed

lemma returnedIds_increasing: "sorted_wrt (<) (returnedIds R xs s)"
proof (induction xs arbitrary: s)
  case Nil
  show ?case by simp
next
  case (Cons x xs)
  show ?case
  proof (cases "fst (stepP R x s)")
    case None
    then show ?thesis using Cons.IH by simp
  next
    case (Some i)
    with stepP_nextBodyId [of R x s] have n: "nextBodyId (snd (stepP R x s)) = Suc i" by simp
    have "\<forall>j \<in> set (returnedIds R xs (snd (stepP R x s))). i < j"
      using returnedIds_ge [of _ R xs "snd (stepP R x s)"] n by fastforce
    then show ?thesis using Some Cons.IH by simp
  qed
qed

lemma addStaticBox_world:
  assumes "addStaticBox m p sz s = (Inr i, s')"
  shows "\<exists>w w'. world s = Some w \<and> world s' = Some w' \<and>
           map_of (bodies s') i = Some \<lparr>rigidBody = nextHandle w, mesh = m, body_id = i\<rparr> \<and>
           rigidBodies w' (nextHandle w) = new_body True p \<and>
           (\<forall>h. h \<noteq> nextHandle w \<longrightarrow> rigidBodies w' h = rigidBodies w h) \<and>
           liveBodies w' = liveBodies w @ [nextHandle w] \<and>
           nextHandle w' = nextHandle w + 1 \<and>
           colliders w' = colliders w @
             [\<lparr>col_parent = nextHandle w,
               col_shape = Cuboid (fst sz / 2) (fst (snd sz) / 2) (snd (snd sz) / 2),
               col_mass = None, col_restitution = None, col_friction = None\<rparr>]"
  using assms
  by (auto simp: addStaticBox_def Let_def createRigidBody_def createCollider_def logP_def
        map_of_map_set split: option.splits if_splits prod.splits)

lemma addDynamicSphere_world:
  assumes "addDynamicSphere m p r ma re s = (Inr i, s')"
  shows "\<exists>w w'. world s = Some w \<and> world s' = Some w' \<and>
           map_of (bodies s') i = Some \<lparr>rigidBody = nextHandle w, mesh = m, body_id = i\<rparr> \<and>
           rigidBodies w' (nextHandle w) = new_body False p \<and>
           (\<forall>h. h \<noteq> nextHandle w \<longrightarrow> rigidBodies w' h = rigidBodies w h) \<and>
           liveBodies w' = liveBodies w @ [nextHandle w] \<and>
           nextHandle w' = nextHandle w + 1 \<and>
           colliders w' = colliders w @
             [\<lparr>col_parent = nextHandle w, col_shape = Ball r,
               col_mass = Some (case ma of None \<Rightarrow> 1 | Some x \<Rightarrow> x),
               col_restitution = Some (case re of None \<Rightarrow> 0.8 | Some x \<Rightarrow> x),
               col_friction = Some 0.3\<rparr>]"
  using assms
  by (auto simp: addDynamicSphere_def Let_def createRigidBody_def createCollider_def logP_def
        map_of_map_set split: option.splits if_splits prod.splits)

text \<open>
  C9. On any reachable engine: the ids returned along any further sequence of calls are
  strictly increasing, and each of them is greater than every id registered now; a
  successful \<open>addStaticBox\<close> or \<open>addDynamicSphere\<close> returns an id that was not a key of
  the body map and leaves every other key's body as it was. The id is mapped to the body
  created by this call: the entry holds the given mesh, the id, and the handle that the
  world hands out next; in the new world that handle is a live rigid body (fixed for a
  box, dynamic for a sphere) at the given position, at rest and unrotated, with one new
  collider attached to it (a cuboid of half the given size; a ball of the given radius
  with the mass and restitution given or defaulted to \<open>1\<close> and \<open>0.8\<close>, and friction
  \<open>0.3\<close>), and every other rigid body is as it was.
\<close>

theorem body_ids_fresh:
  assumes "reachableP R s"
  shows "sorted_wrt (<) (returnedIds R xs s) \<and>
         (\<forall>i \<in> set (returnedIds R xs s). \<forall>k \<in> fst ` set (bodies s). k < i) \<and>
         (\<forall>i s'. addStaticBox m p sz s = (Inr i, s') \<longrightarrow>
            map_of (bodies s) i = None \<and>
            (\<forall>k. k \<noteq> i \<longrightarrow> map_of (bodies s') k = map_of (bodies s) k) \<and>
            (\<exists>w w'. world s = Some w \<and> world s' = Some w' \<and>
               map_of (bodies s') i =
                 Some \<lparr>rigidBody = nextHandle w, mesh = m, body_id = i\<rparr> \<and>
               rigidBodies w' (nextHandle w) = new_body True p \<and>
               (\<forall>h. h \<noteq> nextHandle w \<longrightarrow> rigidBodies w' h = rigidBodies w h) \<and>
               liveBodies w' = liveBodies w @ [nextHandle w] \<and>
               nextHandle w' = nextHandle w + 1 \<and>
               colliders w' = colliders w @
                 [\<lparr>col_parent = nextHandle w,
                   col_shape = Cuboid (fst sz / 2) (fst (snd sz) / 2) (snd (snd sz) / 2),
                   col_mass = None, col_restitution = None, col_friction = None\<rparr>])) \<and>
         (\<forall>i s'. addDynamicSphere m p r ma re s = (Inr i, s') \<longrightarrow>
            map_of (bodies s) i = None \<and>
            (\<forall>k. k \<noteq> i \<longrightarrow> map_of (bodies s') k = map_of (bodies s) k) \<and>
            (\<exists>w w'. world s = Some w \<and> world s' = Some w' \<and>
               map_of (bodies s') i =
                 Some \<lparr>rigidBody = nextHandle w, mesh = m, body_id = i\<rparr> \<and>
               rigidBodies w' (nextHandle w) = new_body False p \<and>
               (\<forall>h. h \<noteq> nextHandle w \<longrightarrow> rigidBodies w' h = rigidBodies w h) \<and>
               liveBodies w' = liveBodies w @ [nextHandle w] \<and>
               nextHandle w' = nextHandle w + 1 \<and>
               colliders w' = colliders w @
                 [\<lparr>col_parent = nextHandle w, col_shape = Ball r,
                   col_mass = Some (case ma of None \<Rightarrow> 1 | Some x \<Rightarrow> x),
                   col_restitution = Some (case re of None \<Rightarrow> 0.8 | Some x \<Rightarrow> x),
                   col_friction = Some 0.3\<rparr>]))"
proof -
  from assms have inv: "engine_inv s" by (rule reachableP_inv)
  then have keys: "\<forall>k \<in> fst ` set (bodies s). k < nextBodyId s"
    by (auto simp: engine_inv_def)
  then have fresh: "map_of (bodies s) (nextBodyId s) = None"
    by (auto simp: map_of_absent_iff)
  have a: "\<forall>i \<in> set (returnedIds R xs s). \<forall>k \<in> fst ` set (bodies s). k < i"
    using keys returnedIds_ge [of _ R xs s] by fastforce
  have b: "\<forall>i s'. addStaticBox m p sz s = (Inr i, s') \<longrightarrow>
            map_of (bodies s) i = None \<and>
            (\<forall>k. k \<noteq> i \<longrightarrow> map_of (bodies s') k = map_of (bodies s) k)"
    using addStaticBox_Inr [of m p sz s] fresh by (fastforce simp: map_of_map_set)
  have c: "\<forall>i s'. addDynamicSphere m p r ma re s = (Inr i, s') \<longrightarrow>
            map_of (bodies s) i = None \<and>
            (\<forall>k. k \<noteq> i \<longrightarrow> map_of (bodies s') k = map_of (bodies s) k)"
    using addDynamicSphere_Inr [of m p r ma re s] fresh by (fastforce simp: map_of_map_set)
  show ?thesis
  proof (intro conjI allI impI)
    show "sorted_wrt (<) (returnedIds R xs s)" by (rule returnedIds_increasing)
    show "\<forall>i \<in> set (returnedIds R xs s). \<forall>k \<in> fst ` set (bodies s). k < i" by (rule a)
  next
    fix i s' assume e: "addStaticBox m p sz s = (Inr i, s')"
    from b e show "map_of (bodies s) i = None" by blast
    from addStaticBox_world [OF e]
    show "\<exists>w w'. world s = Some w \<and> world s' = Some w' \<and>
               map_of (bodies s') i =
                 Some \<lparr>rigidBody = nextHandle w, mesh = m, body_id = i\<rparr> \<and>
               rigidBodies w' (nextHandle w) = new_body True p \<and>
               (\<forall>h. h \<noteq> nextHandle w \<longrightarrow> rigidBodies w' h = rigidBodies w h) \<and>
               liveBodies w' = liveBodies w @ [nextHandle w] \<and>
               nextHandle w' = nextHandle w + 1 \<and>
               colliders w' = colliders w @
                 [\<lparr>col_parent = nextHandle w,
                   col_shape = Cuboid (fst sz / 2) (fst (snd sz) / 2) (snd (snd sz) / 2),
                   col_mass = None, col_restitution = None, col_friction = None\<rparr>]" .
    fix k assume "k \<noteq> i"
    with b e show "map_of (bodies s') k = map_of (bodies s) k" by blast
  next
    fix i s' assume e: "addDynamicSphere m p r ma re s = (Inr i, s')"
    from c e show "map_of (bodies s) i = None" by blast
    from addDynamicSphere_world [OF e]
    show "\<exists>w w'. world s = Some w \<and> world s' = Some w' \<and>
               map_of (bodies s') i =
                 Some \<lparr>rigidBody = nextHandle w, mesh = m, body_id = i\<rparr> \<and>
               rigidBodies w' (nextHandle w) = new_body False p \<and>
               (\<forall>h. h \<noteq> nextHandle w \<longrightarrow> rigidBodies w' h = rigidBodies w h) \<and>
               liveBodies w' = liveBodies w @ [nextHandle w] \<and>
               nextHandle w' = nextHandle w + 1 \<and>
               colliders w' = colliders w @
                 [\<lparr>col_parent = nextHandle w, col_shape = Ball r,
                   col_mass = Some (case ma of None \<Rightarrow> 1 | Some x \<Rightarrow> x),
                   col_restitution = Some (case re of None \<Rightarrow> 0.8 | Some x \<Rightarrow> x),
                   col_friction = Some 0.3\<rparr>]" .
    fix k assume "k \<noteq> i"
    with c e show "map_of (bodies s') k = map_of (bodies s) k" by blast
  qed
qed

theorem body_ids_fresh_witness:
  "sorted_wrt (<) (returnedIds \<lparr>world_step = (\<lambda>w. w), applyImpulse = (\<lambda>v b. b)\<rparr>
      [OpAddDynamicSphere 1 (0, 0, 0) 1 None None, OpRemoveBody 1,
       OpAddStaticBox 2 (0, 0, 0) (1, 1, 1)]
      (runP \<lparr>world_step = (\<lambda>w. w), applyImpulse = (\<lambda>v b. b)\<rparr>
        [OpInit None, OpAddStaticBox 0 (2, 3, 4) (1, 1, 1)]
        (enginePristine (\<lambda>a. \<lparr>position = (0, 0, 0), quaternion = (0, 0, 0, 1)\<rparr>)))) \<and>
   returnedIds \<lparr>world_step = (\<lambda>w. w), applyImpulse = (\<lambda>v b. b)\<rparr>
      [OpAddDynamicSphere 1 (0, 0, 0) 1 None None, OpRemoveBody 1,
       OpAddStaticBox 2 (0, 0, 0) (1, 1, 1)]
      (runP \<lparr>world_step = (\<lambda>w. w), applyImpulse = (\<lambda>v b. b)\<rparr>
        [OpInit None, OpAddStaticBox 0 (2, 3, 4) (1, 1, 1)]
        (enginePristine (\<lambda>a. \<lparr>position = (0, 0, 0), quaternion = (0, 0, 0, 1)\<rparr>))) = [1, 2] \<and>
   fst (addDynamicSphere 7 (5, 6, 7) 2 None (Some 0.9)
      (runP \<lparr>world_step = (\<lambda>w. w), applyImpulse = (\<lambda>v b. b)\<rparr>
        [OpInit None, OpAddStaticBox 0 (2, 3, 4) (1, 1, 1)]
        (enginePristine (\<lambda>a. \<lparr>position = (0, 0, 0), quaternion = (0, 0, 0, 1)\<rparr>)))) = Inr 1 \<and>
   map_of (bodies (snd (addDynamicSphere 7 (5, 6, 7) 2 None (Some 0.9)
      (runP \<lparr>world_step = (\<lambda>w. w), applyImpulse = (\<lambda>v b. b)\<rparr>
        [OpInit None, OpAddStaticBox 0 (2, 3, 4) (1, 1, 1)]
        (enginePristine (\<lambda>a. \<lparr>position = (0, 0, 0), quaternion = (0, 0, 0, 1)\<rparr>)))))) 0
     = Some \<lparr>rigidBody = 0, mesh = 0, body_id = 0\<rparr> \<and>
   map_of (bodies (snd (addDynamicSphere 7 (5, 6, 7) 2 None (Some 0.9)
      (runP \<lparr>world_step = (\<lambda>w. w), applyImpulse = (\<lambda>v b. b)\<rparr>
        [OpInit None, OpAddStaticBox 0 (2, 3, 4) (1, 1, 1)]
        (enginePristine (\<lambda>a. \<lparr>position = (0, 0, 0), quaternion = (0, 0, 0, 1)\<rparr>)))))) 1
     = Some \<lparr>rigidBody = 1, mesh = 7, body_id = 1\<rparr> \<and>
   (\<exists>w'. world (snd (addDynamicSphere 7 (5, 6, 7) 2 None (Some 0.9)
      (runP \<lparr>world_step = (\<lambda>w. w), applyImpulse = (\<lambda>v b. b)\<rparr>
        [OpInit None, OpAddStaticBox 0 (2, 3, 4) (1, 1, 1)]
        (enginePristine (\<lambda>a. \<lparr>position = (0, 0, 0), quaternion = (0, 0, 0, 1)\<rparr>))))) = Some w' \<and>
      rigidBodies w' 1 = new_body False (5, 6, 7) \<and>
      liveBodies w' = [0, 1] \<and>
      map col_shape (colliders w') = [Cuboid (1 / 2) (1 / 2) (1 / 2), Ball 2])"
proof -
  define R :: rapier where "R = \<lparr>world_step = (\<lambda>w. w), applyImpulse = (\<lambda>v b. b)\<rparr>"
  define s where "s = runP R [OpInit None, OpAddStaticBox 0 (2, 3, 4) (1, 1, 1)]
        (enginePristine (\<lambda>a. \<lparr>position = (0, 0, 0), quaternion = (0, 0, 0, 1)\<rparr>))"
  define xs where "xs = [OpAddDynamicSphere 1 (0, 0, 0) 1 None None, OpRemoveBody 1,
       OpAddStaticBox 2 (0, 0, 0) (1, 1, 1)]"
  define s' where "s' = snd (addDynamicSphere 7 (5, 6, 7) 2 None (Some 0.9) s)"
  have r: "reachableP R s" unfolding s_def by (rule reachableP_runP) (rule reachP_init)
  have b: "bodies s = [(0, \<lparr>rigidBody = 0, mesh = 0, body_id = 0\<rparr>)]"
    by (simp add: s_def engine_defs)
  obtain w where w: "world s = Some w" "nextHandle w = 1" "liveBodies w = [0]"
    "map col_shape (colliders w) = [Cuboid (1 / 2) (1 / 2) (1 / 2)]"
    by (simp add: s_def engine_defs)
  have f: "fst (addDynamicSphere 7 (5, 6, 7) 2 None (Some 0.9) s) = Inr 1"
    by (simp add: s_def engine_defs)
  then have e: "addDynamicSphere 7 (5, 6, 7) 2 None (Some 0.9) s = (Inr 1, s')"
    by (simp add: prod_eq_iff s'_def)
  have ids: "returnedIds R xs s = [1, 2]"
    by (simp add: s_def xs_def engine_defs)
  note th = body_ids_fresh [OF r, of xs 7 "(5, 6, 7)" "(1, 1, 1)" 2 None "Some 0.9"]
  from th have so: "sorted_wrt (<) (returnedIds R xs s)" by blast
  from th e have old: "map_of (bodies s') 0 = map_of (bodies s) 0"
    by (metis zero_neq_one)
  from th e obtain w0 w' where n: "world s = Some w0" "world s' = Some w'"
      "map_of (bodies s') 1 = Some \<lparr>rigidBody = nextHandle w0, mesh = 7, body_id = 1\<rparr>"
      "rigidBodies w' (nextHandle w0) = new_body False (5, 6, 7)"
      "liveBodies w' = liveBodies w0 @ [nextHandle w0]"
      "colliders w' = colliders w0 @
                 [\<lparr>col_parent = nextHandle w0, col_shape = Ball 2,
                   col_mass = Some (case None of None \<Rightarrow> 1 | Some x \<Rightarrow> x),
                   col_restitution = Some (case Some 0.9 of None \<Rightarrow> 0.8 | Some x \<Rightarrow> x),
                   col_friction = Some 0.3\<rparr>]"
    by blast
  from n(1) w(1) have ww: "w0 = w" by simp
  have new: "map_of (bodies s') 1 = Some \<lparr>rigidBody = 1, mesh = 7, body_id = 1\<rparr>"
    using n(3) by (simp add: ww w)
  have wd: "\<exists>w'. world s' = Some w' \<and> rigidBodies w' 1 = new_body False (5, 6, 7) \<and>
      liveBodies w' = [0, 1] \<and>
      map col_shape (colliders w') = [Cuboid (1 / 2) (1 / 2) (1 / 2), Ball 2]"
    using n(2,4,5,6) by (simp add: ww w)
  have "sorted_wrt (<) (returnedIds R xs s) \<and> returnedIds R xs s = [1, 2] \<and>
      fst (addDynamicSphere 7 (5, 6, 7) 2 None (Some 0.9) s) = Inr 1 \<and>
      map_of (bodies s') 0 = Some \<lparr>rigidBody = 0, mesh = 0, body_id = 0\<rparr> \<and>
      map_of (bodies s') 1 = Some \<lparr>rigidBody = 1, mesh = 7, body_id = 1\<rparr> \<and>
      (\<exists>w'. world s' = Some w' \<and> rigidBodies w' 1 = new_body False (5, 6, 7) \<and>
        liveBodies w' = [0, 1] \<and>
        map col_shape (colliders w') = [Cuboid (1 / 2) (1 / 2) (1 / 2), Ball 2])"
    using so ids f old new wd by (simp add: b)
  then show ?thesis unfolding s'_def s_def R_def xs_def .
qed

section \<open>ShaderManager: what a copy returned by find shares with the registry\<close>

lemma frame_refl: "frame s s"
  by (simp add: frame_def)

lemma frame_trans: "frame s t \<Longrightarrow> frame t u \<Longrightarrow> frame s u"
  by (auto simp: frame_def)

lemma frame_deref:
  "frame s s' \<Longrightarrow> (\<forall>a. v = VRef a \<longrightarrow> a < hnext s) \<Longrightarrow> deref s' v = deref s v"
  by (cases v) (auto simp: frame_def deref_def)

lemma frame_view:
  assumes "frame s s'" and "\<forall>kv \<in> set us. \<forall>a. snd kv = VRef a \<longrightarrow> a < hnext s"
  shows "view s' us = view s us"
  using assms by (auto simp: view_def intro: frame_deref)

lemma cloneValue_frame: "cloneValue v s = (v', s') \<Longrightarrow> frame s s'"
  by (cases v) (auto simp: cloneValue_def alloc_def frame_def Let_def split: if_splits)

lemma cloneValue_deref:
  assumes "cloneValue v s = (v', s')" and "\<forall>a. v = VRef a \<longrightarrow> a < hnext s"
  shows "deref s' v' = deref s v \<and> (\<forall>a'. v' = VRef a' \<longrightarrow> a' < hnext s')"
  using assms
  by (cases v) (auto simp: cloneValue_def alloc_def deref_def Let_def split: if_splits)

lemma cloneValue_fresh:
  assumes "cloneValue v s = (v', s')" and "v = VRef a" and "okind (heap s a) \<noteq> KOther"
  shows "\<exists>a'. v' = VRef a' \<and> hnext s \<le> a'"
  using assms
  by (cases "okind (heap s a)") (auto simp: cloneValue_def alloc_def Let_def)

lemma copy_of_frame:
  assumes "copy_of s1 s2 kv kv'" and "frame s s1" and "frame s2 s3"
    and "\<forall>a. snd kv = VRef a \<longrightarrow> a < hnext s"
  shows "copy_of s s3 kv kv'"
proof -
  have d1: "deref s1 (snd kv) = deref s (snd kv)"
    using assms(2,4) by (rule frame_deref)
  have d2: "deref s3 (snd kv') = deref s2 (snd kv')"
    using assms(1,3) by (intro frame_deref) (auto simp: copy_of_def)
  have k: "\<forall>a. snd kv = VRef a \<longrightarrow> heap s1 a = heap s a"
    using assms(2,4) by (auto simp: frame_def)
  show ?thesis
    using assms(1,2,3) d1 d2 k
    by (auto simp: copy_of_def frame_def)
qed

text \<open>
  The loop of \<open>cloneUniforms\<close>, started on names that are distinct and not yet in the
  accumulator: it appends one cell per name, in order; each new value shows what the
  original showed; a value of a copied kind is a new reference.
\<close>

lemma cloneUniformsInto_spec:
  assumes "distinct (map fst us)"
    and "fst ` set us \<inter> fst ` set acc = {}"
    and "\<forall>kv \<in> set us. \<forall>a. snd kv = VRef a \<longrightarrow> a < hnext s"
  shows "\<exists>r s'. cloneUniformsInto us acc s = (acc @ r, s') \<and> frame s s' \<and>
           list_all2 (copy_of s s') us r"
  using assms
proof (induction us arbitrary: acc s)
  case Nil
  then show ?case by (simp add: frame_refl)
next
  case (Cons kv us)
  obtain key v where kv: "kv = (key, v)" by (cases kv)
  obtain v' s1 where cv: "cloneValue v s = (v', s1)" by (cases "cloneValue v s")
  from cv have f1: "frame s s1" by (rule cloneValue_frame)
  from Cons.prems(3) kv have vb: "\<forall>a. v = VRef a \<longrightarrow> a < hnext s" by simp
  from Cons.prems(2) kv have "key \<notin> fst ` set acc" by auto
  then have ms: "map_set key v' acc = acc @ [(key, v')]" by (rule map_set_absent)
  have p1: "distinct (map fst us)" using Cons.prems(1) by simp
  have p2: "fst ` set us \<inter> fst ` set (acc @ [(key, v')]) = {}"
    using Cons.prems(1,2) kv by auto
  have p3: "\<forall>kv \<in> set us. \<forall>a. snd kv = VRef a \<longrightarrow> a < hnext s1"
    using Cons.prems(3) f1 by (fastforce simp: frame_def)
  from Cons.IH [OF p1 p2 p3] obtain r s' where
    r: "cloneUniformsInto us (acc @ [(key, v')]) s1 = ((acc @ [(key, v')]) @ r, s')"
    and f2: "frame s1 s'" and la: "list_all2 (copy_of s1 s') us r" by blast
  have hd0: "copy_of s s1 (key, v) (key, v')"
    using cloneValue_deref [OF cv vb] cloneValue_fresh [OF cv] by (auto simp: copy_of_def)
  have hd: "copy_of s s' (key, v) (key, v')"
    using copy_of_frame [OF hd0 frame_refl f2] vb by simp
  have tl: "list_all2 (copy_of s s') us r"
  proof (rule list.rel_mono_strong [OF la])
    fix x y assume xs: "x \<in> set us" and "y \<in> set r" and c: "copy_of s1 s' x y"
    have "\<forall>a. snd x = VRef a \<longrightarrow> a < hnext s" using Cons.prems(3) xs by simp
    then show "copy_of s s' x y" using copy_of_frame [OF c f1 frame_refl] by simp
  qed
  have res: "cloneUniformsInto (kv # us) acc s = (acc @ ((key, v') # r), s')"
    using r by (simp add: kv cv ms)
  show ?case
    using res frame_trans [OF f1 f2] hd tl kv by auto
qed

lemma cloneUniforms_spec:
  assumes "distinct (map fst us)"
    and "\<forall>kv \<in> set us. \<forall>a. snd kv = VRef a \<longrightarrow> a < hnext s"
  shows "\<exists>r s'. cloneUniforms us s = (r, s') \<and> frame s s' \<and> list_all2 (copy_of s s') us r"
  using cloneUniformsInto_spec [OF assms(1) _ assms(2), of "[]"]
  by (simp add: cloneUniforms_def)

lemma copies_view: "list_all2 (copy_of s s') us r \<Longrightarrow> view s' r = view s us"
  by (induction us r rule: list_all2_induct) (auto simp: view_def copy_of_def)

lemma copies_fresh:
  assumes "list_all2 (copy_of s s') us r" and "cloneable s us" and "(k, VRef a') \<in> set r"
  shows "hnext s \<le> a'"
  using assms
proof (induction us r rule: list_all2_induct)
  case Nil
  then show ?case by simp
next
  case (Cons x xs y ys)
  show ?case
  proof (cases "(k, VRef a') = y")
    case True
    with Cons.hyps(1) have c: "copy_of s s' x (k, VRef a')" by simp
    then have d: "deref s (snd x) = Inr (heap s' a')" by (simp add: copy_of_def deref_def)
    then obtain a where a: "snd x = VRef a" by (cases "snd x") (auto simp: deref_def)
    with Cons.prems(1) have "okind (heap s a) \<noteq> KOther" by (auto simp: cloneable_def)
    with c a show ?thesis by (auto simp: copy_of_def)
  next
    case False
    with Cons.prems have "(k, VRef a') \<in> set ys" and "cloneable s xs"
      by (auto simp: cloneable_def)
    with Cons.IH show ?thesis by blast
  qed
qed

lemma frame_wf: "sm_wf s \<Longrightarrow> frame s t \<Longrightarrow> sm_wf t"
  by (fastforce simp: sm_wf_def frame_def)

lemma mutate_frame: "frame s t \<Longrightarrow> hnext s \<le> a \<Longrightarrow> frame s (mutate a ob t)"
  by (auto simp: frame_def mutate_def)

lemma foldl_mutate_frame:
  "frame s t \<Longrightarrow> \<forall>m \<in> set ms. hnext s \<le> fst m \<Longrightarrow>
   frame s (foldl (\<lambda>t m. mutate (fst m) (snd m) t) t ms)"
  by (induction ms arbitrary: t) (auto intro: mutate_frame)

lemma find_shader_spec:
  assumes "sm_wf s" and "sm_initialized s" and "map_of (shaders s) name = Some sh"
  shows "\<exists>d s'. find_shader name s = (Inr d, s') \<and> frame s s' \<and>
           vertexShader d = vertexShader sh \<and> fragmentShader d = fragmentShader sh \<and>
           list_all2 (copy_of s s') (uniforms sh) (uniforms d)"
proof -
  from assms(3) have mem: "(name, sh) \<in> set (shaders s)" by (rule map_of_SomeD)
  with assms(1) have d: "distinct (map fst (uniforms sh))"
    and b: "\<forall>kv \<in> set (uniforms sh). \<forall>a. snd kv = VRef a \<longrightarrow> a < hnext s"
    by (auto simp: sm_wf_def)
  from cloneUniforms_spec [OF d b] obtain r s' where
    "cloneUniforms (uniforms sh) s = (r, s')" "frame s s'"
    "list_all2 (copy_of s s') (uniforms sh) r" by blast
  then show ?thesis using assms(2,3) by (simp add: find_shader_def)
qed

lemma find_shader_throws:
  assumes "sm_initialized s"
  shows "(\<exists>e s'. find_shader n s = (Inl e, s')) \<longleftrightarrow> map_of (shaders s) n = None"
  using assms
  by (auto simp: find_shader_def Let_def split: option.splits prod.splits)

text \<open>
  Where the copy is deep. Take a well-formed, initialised registry and a registered shader
  whose uniform values are primitives, Colors, Vector2s or Vector3s. \<open>find\<close> returns a
  copy that shows the registry's values, and after any changes made in place to objects
  the copy refers to, \<open>find\<close> of any registered name still returns the values the
  registry had before. \<open>find\<close> throws exactly for the names that are not in the table.
\<close>

lemma find_copies_cloned_kinds:
  assumes "sm_wf s" and "sm_initialized s"
    and "map_of (shaders s) name = Some sh" and "cloneable s (uniforms sh)"
  shows "\<exists>d s1. find_shader name s = (Inr d, s1) \<and>
           view s1 (uniforms d) = view s (uniforms sh) \<and>
           (\<forall>ms name2 sh2.
              (\<forall>m \<in> set ms. \<exists>k. (k, VRef (fst m)) \<in> set (uniforms d)) \<and>
              map_of (shaders s) name2 = Some sh2 \<longrightarrow>
              (\<exists>d2 s2. find_shader name2 (foldl (\<lambda>t m. mutate (fst m) (snd m) t) s1 ms)
                          = (Inr d2, s2) \<and>
                        view s2 (uniforms d2) = view s (uniforms sh2))) \<and>
           (\<forall>n. (\<exists>e s'. find_shader n s = (Inl e, s')) \<longleftrightarrow> map_of (shaders s) n = None)"
proof -
  from find_shader_spec [OF assms(1,2,3)] obtain d s1 where
    f: "find_shader name s = (Inr d, s1)" and fr: "frame s s1"
    and cp: "list_all2 (copy_of s s1) (uniforms sh) (uniforms d)" by blast
  have v: "view s1 (uniforms d) = view s (uniforms sh)" using cp by (rule copies_view)
  have mu: "\<exists>d2 s2. find_shader name2 (foldl (\<lambda>t m. mutate (fst m) (snd m) t) s1 ms)
                          = (Inr d2, s2) \<and> view s2 (uniforms d2) = view s (uniforms sh2)"
    if held: "\<forall>m \<in> set ms. \<exists>k. (k, VRef (fst m)) \<in> set (uniforms d)"
      and reg2: "map_of (shaders s) name2 = Some sh2" for ms name2 sh2
  proof -
    let ?t = "foldl (\<lambda>t m. mutate (fst m) (snd m) t) s1 ms"
    have fresh: "\<forall>m \<in> set ms. hnext s \<le> fst m"
      using held copies_fresh [OF cp assms(4)] by blast
    have ft: "frame s ?t" using fr fresh by (rule foldl_mutate_frame)
    have wt: "sm_wf ?t" using assms(1) ft by (rule frame_wf)
    have it: "sm_initialized ?t" using ft assms(2) by (simp add: frame_def)
    have rt: "map_of (shaders ?t) name2 = Some sh2" using ft reg2 by (simp add: frame_def)
    from find_shader_spec [OF wt it rt] obtain d2 s2 where
      f2: "find_shader name2 ?t = (Inr d2, s2)"
      and cp2: "list_all2 (copy_of ?t s2) (uniforms sh2) (uniforms d2)" by blast
    from reg2 have "(name2, sh2) \<in> set (shaders s)" by (rule map_of_SomeD)
    with assms(1) have b2: "\<forall>kv \<in> set (uniforms sh2). \<forall>a. snd kv = VRef a \<longrightarrow> a < hnext s"
      by (auto simp: sm_wf_def)
    have "view s2 (uniforms d2) = view ?t (uniforms sh2)" using cp2 by (rule copies_view)
    also have "\<dots> = view s (uniforms sh2)" using ft b2 by (rule frame_view)
    finally show ?thesis using f2 by blast
  qed
  show ?thesis
    using f v mu find_shader_throws [OF assms(2)] by blast
qed

lemma init_state:
  "initShaders smPristine =
     \<lparr> shaders =
         [(''skyEnvironment'',
           \<lparr> vertexShader = GlslBuiltin ''skyEnvironment'' ''vertex'',
             fragmentShader = GlslBuiltin ''skyEnvironment'' ''fragment'',
             uniforms = [(''skyTexture'', VNull), (''topColor'', VRef 0),
                         (''bottomColor'', VRef 1), (''offset'', VNum 400),
                         (''exponent'', VNum 0.6)] \<rparr>),
          (''clouds'',
           \<lparr> vertexShader = GlslBuiltin ''clouds'' ''vertex'',
             fragmentShader = GlslBuiltin ''clouds'' ''fragment'',
             uniforms = [(''cameraPosition'', VRef 2)] \<rparr>),
          (''terrain'',
           \<lparr> vertexShader = GlslBuiltin ''terrain'' ''vertex'',
             fragmentShader = GlslBuiltin ''terrain'' ''fragment'',
             uniforms = [(''diffuseMap'', VNull), (''normalMap'', VNull),
                         (''lightDirection'', VRef 3)] \<rparr>),
          (''shield'',
           \<lparr> vertexShader = GlslBuiltin ''shield'' ''vertex'',
             fragmentShader = GlslBuiltin ''shield'' ''fragment'',
             uniforms = [(''opacity'', VNum 0.5), (''color'', VRef 4)] \<rparr>)],
       sm_initialized = True,
       heap = (\<lambda>_. \<lparr> okind = KOther, ocomps = [] \<rparr>)
                (0 := colorOfHex 0x0077ff, 1 := colorOfHex 0xffffff, 2 := vector3 0 0 0,
                 3 := vector3 1 1 1, 4 := colorOfHex 0x00aaff),
       hnext = 5 \<rparr>"
  by (simp add: initShaders_def smPristine_def alloc_def Let_def numeral_2_eq_2 [symmetric])

lemma init_wf: "sm_wf (initShaders smPristine)"
  by (simp add: init_state sm_wf_def)

lemma init_cloneable:
  "cloneable (initShaders smPristine) [(''opacity'', VNum 0.5), (''color'', VRef 4)]"
  by (simp add: init_state cloneable_def colorOfHex_def)

lemma shield_registered:
  "map_of (shaders (initShaders smPristine)) ''shield'' =
     Some \<lparr> vertexShader = GlslBuiltin ''shield'' ''vertex'',
            fragmentShader = GlslBuiltin ''shield'' ''fragment'',
            uniforms = [(''opacity'', VNum 0.5), (''color'', VRef 4)] \<rparr>"
  by (simp add: init_state)

lemma shield_found:
  "find_shader ''shield'' (initShaders smPristine) =
     (Inr \<lparr> vertexShader = GlslBuiltin ''shield'' ''vertex'',
            fragmentShader = GlslBuiltin ''shield'' ''fragment'',
            uniforms = [(''opacity'', VNum 0.5), (''color'', VRef 5)] \<rparr>,
      (initShaders smPristine)\<lparr>heap := (heap (initShaders smPristine))(5 := colorOfHex 0x00aaff),
                               hnext := 6\<rparr>)"
  by (simp add: init_state find_shader_def cloneUniforms_def cloneValue_def alloc_def
        colorOfHex_def Let_def)

lemma find_copies_shield_example:
  "\<exists>d2 s2.
     find_shader ''shield''
       (mutate 5 \<lparr>okind = KColor, ocomps = [1, 0, 0]\<rparr>
          (snd (find_shader ''shield'' (initShaders smPristine)))) = (Inr d2, s2) \<and>
     view s2 (uniforms d2) =
       [(''opacity'', Inl (VNum 0.5)), (''color'', Inr (colorOfHex 0x00aaff))]"
proof -
  define s where "s = initShaders smPristine"
  define sh where "sh = \<lparr> vertexShader = GlslBuiltin ''shield'' ''vertex'',
            fragmentShader = GlslBuiltin ''shield'' ''fragment'',
            uniforms = [(''opacity'', VNum 0.5), (''color'', VRef 4)] \<rparr>"
  have wf: "sm_wf s" unfolding s_def by (rule init_wf)
  have ini: "sm_initialized s" by (simp add: s_def init_state)
  have reg: "map_of (shaders s) ''shield'' = Some sh" unfolding s_def sh_def by (rule shield_registered)
  have cl: "cloneable s (uniforms sh)" using init_cloneable by (simp add: s_def sh_def)
  from find_copies_cloned_kinds [OF wf ini reg cl] obtain d s1 where
    f: "find_shader ''shield'' s = (Inr d, s1)"
    and mu: "\<forall>ms name2 sh2.
              (\<forall>m \<in> set ms. \<exists>k. (k, VRef (fst m)) \<in> set (uniforms d)) \<and>
              map_of (shaders s) name2 = Some sh2 \<longrightarrow>
              (\<exists>d2 s2. find_shader name2 (foldl (\<lambda>t m. mutate (fst m) (snd m) t) s1 ms)
                          = (Inr d2, s2) \<and>
                        view s2 (uniforms d2) = view s (uniforms sh2))" by blast
  from f shield_found have d: "uniforms d = [(''opacity'', VNum 0.5), (''color'', VRef 5)]"
    and s1: "s1 = snd (find_shader ''shield'' s)" by (auto simp: s_def)
  have held: "\<forall>m \<in> set [(5, \<lparr>okind = KColor, ocomps = [1, 0, 0]\<rparr>)].
                \<exists>k. (k, VRef (fst m)) \<in> set (uniforms d)" by (auto simp: d)
  from mu [rule_format, of "[(5, \<lparr>okind = KColor, ocomps = [1, 0, 0]\<rparr>)]" "''shield''" sh]
       held reg
  obtain d2 s2 where
    "find_shader ''shield'' (mutate 5 \<lparr>okind = KColor, ocomps = [1, 0, 0]\<rparr> s1) = (Inr d2, s2)"
    "view s2 (uniforms d2) = view s (uniforms sh)" by auto
  moreover have "view s (uniforms sh) =
      [(''opacity'', Inl (VNum 0.5)), (''color'', Inr (colorOfHex 0x00aaff))]"
    by (simp add: s_def sh_def init_state view_def deref_def)
  ultimately show ?thesis unfolding s1 s_def by auto
qed

text \<open>
  C10, evaluated where the code leaves the claim and its own comments (\<open>find\<close>: ``Return a
  deep copy to avoid modifying the original''; \<open>cloneUniforms\<close>: ``Deep clone uniforms to
  avoid reference issues''). A caller creates a four-component vector \<open>(1, 0, 0, 1)\<close>,
  an object that is neither a \<open>Color\<close> nor a \<open>Vector2\<close> nor a \<open>Vector3\<close>, and registers a
  shader \<open>tint\<close> with it through \<open>addShader\<close>. \<open>find\<close> returns a definition whose cell
  holds the very reference the registry holds: the \<open>else\<close> branch of \<open>cloneUniforms\<close>
  copied the reference, not the object. After the caller sets the first component to \<open>0\<close>
  through the returned definition, the next \<open>find\<close> shows \<open>(0, 0, 0, 1)\<close>: the registered
  default has changed.
\<close>

theorem find_shares_uncloned_object:
  "fst (find_shader ''tint''
     (addShader ''tint''
        \<lparr>vertexShader = GlslText [], fragmentShader = GlslText [],
          uniforms = [(''tint'', VRef 5)]\<rparr>
        (snd (alloc \<lparr>okind = KOther, ocomps = [1, 0, 0, 1]\<rparr> (initShaders smPristine)))))
   = Inr \<lparr>vertexShader = GlslText [], fragmentShader = GlslText [],
           uniforms = [(''tint'', VRef 5)]\<rparr> \<and>
   view (snd (find_shader ''tint''
     (addShader ''tint''
        \<lparr>vertexShader = GlslText [], fragmentShader = GlslText [],
          uniforms = [(''tint'', VRef 5)]\<rparr>
        (snd (alloc \<lparr>okind = KOther, ocomps = [1, 0, 0, 1]\<rparr> (initShaders smPristine))))))
     [(''tint'', VRef 5)]
   = [(''tint'', Inr \<lparr>okind = KOther, ocomps = [1, 0, 0, 1]\<rparr>)] \<and>
   fst (find_shader ''tint''
     (mutate 5 \<lparr>okind = KOther, ocomps = [0, 0, 0, 1]\<rparr>
       (snd (find_shader ''tint''
         (addShader ''tint''
            \<lparr>vertexShader = GlslText [], fragmentShader = GlslText [],
              uniforms = [(''tint'', VRef 5)]\<rparr>
            (snd (alloc \<lparr>okind = KOther, ocomps = [1, 0, 0, 1]\<rparr> (initShaders smPristine))))))))
   = Inr \<lparr>vertexShader = GlslText [], fragmentShader = GlslText [],
           uniforms = [(''tint'', VRef 5)]\<rparr> \<and>
   view (snd (find_shader ''tint''
     (mutate 5 \<lparr>okind = KOther, ocomps = [0, 0, 0, 1]\<rparr>
       (snd (find_shader ''tint''
         (addShader ''tint''
            \<lparr>vertexShader = GlslText [], fragmentShader = GlslText [],
              uniforms = [(''tint'', VRef 5)]\<rparr>
            (snd (alloc \<lparr>okind = KOther, ocomps = [1, 0, 0, 1]\<rparr> (initShaders smPristine)))))))))
     [(''tint'', VRef 5)]
   = [(''tint'', Inr \<lparr>okind = KOther, ocomps = [0, 0, 0, 1]\<rparr>)]"
  by (simp add: init_state addShader_def alloc_def find_shader_def cloneUniforms_def
        cloneValue_def mutate_def view_def deref_def Let_def)

section \<open>ThreeSceneD: the fallback of fetchLotteryData\<close>

lemma logD_fields [simp]:
  "currentNumbers (logD l m as s) = currentNumbers s"
  "drawDate (logD l m as s) = drawDate s"
  "multiplier (logD l m as s) = multiplier s"
  "lotteryBalls (logD l m as s) = lotteryBalls s"
  "dateText (logD l m as s) = dateText s"
  "hasUiContainer (logD l m as s) = hasUiContainer s"
  "hasFrequencyContainer (logD l m as s) = hasFrequencyContainer s"
  "selectedNumberForFrequency (logD l m as s) = selectedNumberForFrequency s"
  "loadingBar (logD l m as s) = loadingBar s"
  by (simp_all add: logD_def)

lemma update3DTexts_fields [simp]:
  "currentNumbers (update3DTexts env s) = currentNumbers s"
  "drawDate (update3DTexts env s) = drawDate s"
  "multiplier (update3DTexts env s) = multiplier s"
  "lotteryBalls (update3DTexts env s) = lotteryBalls s"
  "hasUiContainer (update3DTexts env s) = hasUiContainer s"
  "hasFrequencyContainer (update3DTexts env s) = hasFrequencyContainer s"
  "selectedNumberForFrequency (update3DTexts env s) = selectedNumberForFrequency s"
  "loadingBar (update3DTexts env s) = loadingBar s"
  by (simp_all add: update3DTexts_def Let_def split: option.splits)


lemma updateUI_fields [simp]:
  "currentNumbers (updateUI s) = currentNumbers s"
  "drawDate (updateUI s) = drawDate s"
  "multiplier (updateUI s) = multiplier s"
  "lotteryBalls (updateUI s) = lotteryBalls s"
  "dateText (updateUI s) = dateText s"
  "loadingBar (updateUI s) = loadingBar s"
  by (simp_all add: updateUI_def)



lemma updateBallNumbers_fields [simp]:
  "currentNumbers (updateBallNumbers env s) = currentNumbers s"
  "drawDate (updateBallNumbers env s) = drawDate s"
  "multiplier (updateBallNumbers env s) = multiplier s"
  "hasUiContainer (updateBallNumbers env s) = hasUiContainer s"
  "loadingBar (updateBallNumbers env s) = loadingBar s"
  by (simp_all add: updateBallNumbers_def Let_def split: prod.splits)







section \<open>Which failures reach the caller\<close>

lemma events_emit: "events (emit es s) = events s @ es"
  by (simp add: emit_def)

lemma initAsync_threw:
  "isLoaded (initAsync (Some msg) c) = isLoaded c \<and>
   physicsInitialized (initAsync (Some msg) c) = physicsInitialized c \<and>
   collisionPhase (initAsync (Some msg) c) = collisionPhase c \<and>
   last (events (initAsync (Some msg) c))
     = EvLog (LogEntry LError ''Failed to initialize physics simulation:'' [] msg)"
  by (simp add: initAsync_def Let_def events_emit)

lemma dispose_uninitialised: "world (dispose e) = None \<and> initialized (dispose e) = False"
  by (simp add: dispose_def logP_def Let_def split: option.splits)

text \<open>
  One failure is neither caught nor logged. \<open>dispose\<close> of the scene disposes of the
  physics engine but cancels no timer and leaves \<open>physicsInitialized\<close> set; when the
  start-up timer then fires, \<open>startCycle\<close> passes its guard, \<open>beginNewCycle\<close> assigns the
  phase fields and logs the new cycle, and the first \<open>addDynamicSphere\<close> of
  \<open>setupRandomParticles\<close> throws. The error leaves the timer callback; no error entry is
  logged and the log line that follows \<open>beginNewCycle\<close> is not reached.
\<close>

lemma startCycle_after_dispose:
  assumes "physicsInitialized c"
  shows "startCycle now (disposeC c) =
     (Inl (JsError ''Physics engine not initialized''),
      emit [logC LInfo ''Starting collision cycle #{}'' [ArgNat (currentCycleNumber c + 1)],
            EvClearCollisionParticles,
            logC LDebug ''setupRandomParticles called, physicsInitialized: {}''
              [ArgStr ''true''],
            EvSetupRandomParticlesUntilThrow]
        ((disposeC c)\<lparr>currentCycleNumber := currentCycleNumber c + 1,
                       collisionPhase := Setup,
                       phaseStartTime := now\<rparr>))"
proof -
  have "physicsInitialized (disposeC c)" "\<not> engineInitialized (disposeC c)"
    using assms by simp_all
  from beginNewCycle_disposed [OF this, of now] assms show ?thesis
    by (simp add: startCycle_def)
qed

lemma startCycle_after_dispose_example:
  "fst (stepC (OpStartCycle 1700000002000) (runC [OpInitAsync None, OpDispose] initC))
     = Inl (JsError ''Physics engine not initialized'') \<and>
   fst (addDynamicSphere 0 (0, 0, 0) 1 None None
          (dispose (snd (init None
             (enginePristine (\<lambda>a. \<lparr>position = (0, 0, 0), quaternion = (0, 0, 0, 1)\<rparr>))))))
     = Inl (JsError ''Physics engine not initialized'')"
proof -
  have "physicsInitialized (runC [OpInitAsync None] initC)" by simp
  from startCycle_after_dispose [OF this, of 1700000002000]
  have a: "fst (stepC (OpStartCycle 1700000002000) (runC [OpInitAsync None, OpDispose] initC))
     = Inl (JsError ''Physics engine not initialized'')" by simp
  have b: "fst (addDynamicSphere 0 (0, 0, 0) 1 None None
          (dispose (snd (init None
             (enginePristine (\<lambda>a. \<lparr>position = (0, 0, 0), quaternion = (0, 0, 0, 1)\<rparr>))))))
     = Inl (JsError ''Physics engine not initialized'')"
    using dispose_uninitialised
    by (simp add: addDynamicSphere_def split: option.splits)
  from a b show ?thesis by simp
qed

text \<open>
  C5 (as amended). The physics adapter passes failures on: \<open>init\<close> of an engine that is
  not yet initialised catches the error, logs it and re-throws it; \<open>addStaticBox\<close> and
  \<open>addDynamicSphere\<close> throw \<open>'Physics engine not initialized'\<close> when the engine has no
  world or is not initialised (as after its \<open>dispose\<close>), logging nothing and changing
  nothing. \<open>ThreeSceneC.initAsync\<close> catches the error of \<open>init\<close>: it logs it as its last
  action and leaves the scene unloaded, its physics flag as it was.
  \<open>LotteryAnalyzer.fetchHistoricalData\<close> catches a failed fetch: it logs the error and
  resolves to the empty list.
\<close>

theorem failures_logged_some_rethrown:
  "(\<not> initialized e \<longrightarrow>
      init (Some msg) e =
        (Inl (JsError msg),
         e\<lparr>plog := plog e @ [LogEntry LError ''Failed to initialize physics engine:'' [] msg]\<rparr>)) \<and>
   (world e = None \<or> \<not> initialized e \<longrightarrow>
      addStaticBox m p sz e = (Inl (JsError ''Physics engine not initialized''), e) \<and>
      addDynamicSphere m p r ma re e = (Inl (JsError ''Physics engine not initialized''), e)) \<and>
   addStaticBox m p sz (dispose e) =
     (Inl (JsError ''Physics engine not initialized''), dispose e) \<and>
   addDynamicSphere m p r ma re (dispose e) =
     (Inl (JsError ''Physics engine not initialized''), dispose e) \<and>
   (\<not> initialized e \<longrightarrow>
      isLoaded (initAsync (thrownMessage (fst (init (Some msg) e))) c) = isLoaded c \<and>
      physicsInitialized (initAsync (thrownMessage (fst (init (Some msg) e))) c)
        = physicsInitialized c \<and>
      last (events (initAsync (thrownMessage (fst (init (Some msg) e))) c))
        = EvLog (LogEntry LError ''Failed to initialize physics simulation:'' [] msg)) \<and>
   ((\<forall>d. outcome \<noteq> FetchOk d) \<longrightarrow>
      fetchHistoricalData limit outcome =
        (Inr [],
         [LogEntry LError ''Error fetching historical lottery data: {}'' (errorArgs outcome)
            ''LotteryAnalyzer'']))"
proof -
  have a: "\<not> initialized e \<longrightarrow>
      init (Some msg) e =
        (Inl (JsError msg),
         e\<lparr>plog := plog e @ [LogEntry LError ''Failed to initialize physics engine:'' [] msg]\<rparr>)"
    by (simp add: init_def)
  have b: "world e = None \<or> \<not> initialized e \<longrightarrow>
      addStaticBox m p sz e = (Inl (JsError ''Physics engine not initialized''), e) \<and>
      addDynamicSphere m p r ma re e = (Inl (JsError ''Physics engine not initialized''), e)"
    by (auto simp: addStaticBox_def addDynamicSphere_def split: option.splits)
  have b1: "addStaticBox m p sz (dispose e) =
     (Inl (JsError ''Physics engine not initialized''), dispose e)"
    using dispose_uninitialised [of e] by (simp add: addStaticBox_def)
  have b2: "addDynamicSphere m p r ma re (dispose e) =
     (Inl (JsError ''Physics engine not initialized''), dispose e)"
    using dispose_uninitialised [of e] by (simp add: addDynamicSphere_def)
  have c: "\<not> initialized e \<longrightarrow>
      isLoaded (initAsync (thrownMessage (fst (init (Some msg) e))) c) = isLoaded c \<and>
      physicsInitialized (initAsync (thrownMessage (fst (init (Some msg) e))) c)
        = physicsInitialized c \<and>
      last (events (initAsync (thrownMessage (fst (init (Some msg) e))) c))
        = EvLog (LogEntry LError ''Failed to initialize physics simulation:'' [] msg)"
    using initAsync_threw [of msg c] by (simp add: init_def)
  have f: "(\<forall>d. outcome \<noteq> FetchOk d) \<longrightarrow>
      fetchHistoricalData limit outcome =
        (Inr [],
         [LogEntry LError ''Error fetching historical lottery data: {}'' (errorArgs outcome)
            ''LotteryAnalyzer''])"
    by (cases outcome) (simp_all add: fetchHistoricalData_def)
  from a b b1 b2 c f show ?thesis by blast
qed

theorem failures_logged_some_rethrown_witness:
  "init (Some ''wasm unavailable'')
     (enginePristine (\<lambda>a. \<lparr>position = (0, 0, 0), quaternion = (0, 0, 0, 1)\<rparr>)) =
     (Inl (JsError ''wasm unavailable''),
      (enginePristine (\<lambda>a. \<lparr>position = (0, 0, 0), quaternion = (0, 0, 0, 1)\<rparr>))
        \<lparr>plog := [LogEntry LError ''Failed to initialize physics engine:'' []
                    ''wasm unavailable'']\<rparr>) \<and>
   addDynamicSphere 0 (0, 0, 0) 1 None None
     (enginePristine (\<lambda>a. \<lparr>position = (0, 0, 0), quaternion = (0, 0, 0, 1)\<rparr>)) =
     (Inl (JsError ''Physics engine not initialized''),
      enginePristine (\<lambda>a. \<lparr>position = (0, 0, 0), quaternion = (0, 0, 0, 1)\<rparr>)) \<and>
   isLoaded (initAsync (thrownMessage (fst (init (Some ''wasm unavailable'')
       (enginePristine (\<lambda>a. \<lparr>position = (0, 0, 0), quaternion = (0, 0, 0, 1)\<rparr>))))) initC)
     = False \<and>
   fetchHistoricalData 200 (FetchNotOk 503) =
     (Inr [], [LogEntry LError ''Error fetching historical lottery data: {}''
                 [ArgStr ''Error: HTTP error! status: {}'', ArgNat 503] ''LotteryAnalyzer''])"
proof -
  define e where "e = enginePristine (\<lambda>a. \<lparr>position = (0, 0, 0), quaternion = (0, 0, 0, 1)\<rparr>)"
  have ni: "\<not> initialized e" by (simp add: e_def enginePristine_def)
  have pl: "plog e = []" by (simp add: e_def enginePristine_def)
  have nf: "\<forall>d. FetchNotOk 503 \<noteq> FetchOk d" by simp
  note th = failures_logged_some_rethrown
              [of e "''wasm unavailable''" 0 "(0, 0, 0)" "(1, 1, 1)" 1 None None initC
                  "FetchNotOk 503" 200]
  from th ni have "init (Some ''wasm unavailable'') e =
      (Inl (JsError ''wasm unavailable''),
       e\<lparr>plog := plog e @ [LogEntry LError ''Failed to initialize physics engine:'' []
                              ''wasm unavailable'']\<rparr>)" by blast
  moreover from th ni have
    "addDynamicSphere 0 (0, 0, 0) 1 None None e =
       (Inl (JsError ''Physics engine not initialized''), e)" by blast
  moreover from th ni have
    "isLoaded (initAsync (thrownMessage (fst (init (Some ''wasm unavailable'') e))) initC)
       = isLoaded initC" by blast
  moreover from th nf have
    "fetchHistoricalData 200 (FetchNotOk 503) =
       (Inr [], [LogEntry LError ''Error fetching historical lottery data: {}''
          (errorArgs (FetchNotOk 503)) ''LotteryAnalyzer''])" by blast
  ultimately have
    "init (Some ''wasm unavailable'') e =
       (Inl (JsError ''wasm unavailable''),
        e\<lparr>plog := [LogEntry LError ''Failed to initialize physics engine:'' []
                      ''wasm unavailable'']\<rparr>) \<and>
     addDynamicSphere 0 (0, 0, 0) 1 None None e =
       (Inl (JsError ''Physics engine not initialized''), e) \<and>
     isLoaded (initAsync (thrownMessage (fst (init (Some ''wasm unavailable'') e))) initC)
       = False \<and>
     fetchHistoricalData 200 (FetchNotOk 503) =
       (Inr [], [LogEntry LError ''Error fetching historical lottery data: {}''
                   [ArgStr ''Error: HTTP error! status: {}'', ArgNat 503] ''LotteryAnalyzer''])"
    by (simp add: pl initC_def)
  then show ?thesis unfolding e_def .
qed

text \<open>
  C5 as stated fails: a public operation of the physics adapter returns an error to its
  caller. \<open>init\<close>, when the rigid-body library fails to load, rejects with that error; and
  \<open>addStaticBox\<close> on an engine that was never initialised throws.
\<close>

theorem init_rethrows_counterexample:
  "fst (init (Some ''wasm unavailable'')
     (enginePristine (\<lambda>a. \<lparr>position = (0, 0, 0), quaternion = (0, 0, 0, 1)\<rparr>)))
     = Inl (JsError ''wasm unavailable'') \<and>
   fst (addStaticBox 0 (0, 0, 0) (1, 1, 1)
     (enginePristine (\<lambda>a. \<lparr>position = (0, 0, 0), quaternion = (0, 0, 0, 1)\<rparr>)))
     = Inl (JsError ''Physics engine not initialized'')"
  by (simp add: init_def addStaticBox_def enginePristine_def)

section \<open>ThreeSceneE: what replaces a model that fails to load\<close>

lemma samplePosition_far:
  "farEnough rnd k \<Longrightarrow>
   samplePosition rnd k =
     Some ((rnd k - 0.5) * 120 * 0.6, (rnd (k + 1) - 0.5) * 120 * 0.6, k + 2)"
  unfolding farEnough_def
  by (subst samplePosition.simps) (simp only: if_False)

lemma samplePosition_near:
  "\<not> farEnough rnd k \<Longrightarrow> samplePosition rnd k = samplePosition rnd (k + 2)"
  unfolding farEnough_def
  by (subst samplePosition.simps) (simp only: not_not if_True)

lemma samplePosition_terminates:
  "farEnough rnd (k + 2 * n) \<Longrightarrow> \<exists>x z k'. samplePosition rnd k = Some (x, z, k')"
proof (induction n arbitrary: k)
  case 0
  then have "farEnough rnd k" by simp
  then show ?case by (simp only: samplePosition_far) blast
next
  case (Suc n)
  show ?case
  proof (cases "farEnough rnd k")
    case True
    then show ?thesis by (simp only: samplePosition_far) blast
  next
    case False
    from Suc.prems have "farEnough rnd ((k + 2) + 2 * n)" by (simp add: add.assoc)
    from Suc.IH [OF this] obtain x z k' where "samplePosition rnd (k + 2) = Some (x, z, k')"
      by blast
    with samplePosition_near [OF False] show ?thesis by simp
  qed
qed

lemma logEv_fields [simp]:
  "ship (logEv l m as s) = ship s"
  "shieldMesh (logEv l m as s) = shieldMesh s"
  "asteroidModel (logEv l m as s) = asteroidModel s"
  "asteroids (logEv l m as s) = asteroids s"
  "sceneObjs (logEv l m as s) = sceneObjs s"
  "gameLevel (logEv l m as s) = gameLevel s"
  "rngPos (logEv l m as s) = rngPos s"
  "logE (logEv l m as s) = logE s @ [LogEntry l m as ''ThreeSceneE'']"
  by (simp_all add: logEv_def)

lemma createAsteroid_without_model:
  assumes "asteroidModel s = None"
  shows "createAsteroid rnd sz s =
           Some (logEv LWarn ''Asteroid model not loaded, skipping asteroid creation'' [] s)"
  using assms by (simp add: createAsteroid_def)

lemma createAsteroid_with_model:
  assumes "asteroidModel s = Some model" and "\<forall>k. \<exists>n. farEnough rnd (k + 2 * n)"
  shows "\<exists>s' a. createAsteroid rnd sz s = Some s' \<and> asteroids s' = asteroids s @ [a] \<and>
           a_mesh a = Model model \<and> a_size a = sz \<and>
           ship s' = ship s \<and> asteroidModel s' = asteroidModel s \<and>
           gameLevel s' = gameLevel s \<and> logE s' = logE s \<and>
           sceneObjs s' = sceneObjs s @ [Model model]"
proof -
  from assms(2) obtain n where "farEnough rnd ((rngPos s + 3) + 2 * n)" by blast
  from samplePosition_terminates [OF this] obtain x z k' where
    "samplePosition rnd (rngPos s + 3) = Some (x, z, k')" by blast
  then show ?thesis using assms(1) by (simp add: createAsteroid_def Let_def)
qed

lemma createAsteroidsLoop_without_model:
  assumes "asteroidModel s = None"
  shows "\<exists>s'. createAsteroidsLoop rnd n s = Some s' \<and> asteroids s' = asteroids s \<and>
           ship s' = ship s \<and> sceneObjs s' = sceneObjs s \<and> asteroidModel s' = None \<and>
           logE s' = logE s @ replicate n
             (LogEntry LWarn ''Asteroid model not loaded, skipping asteroid creation'' []
                ''ThreeSceneE'')"
  using assms
proof (induction n arbitrary: s)
  case 0
  then show ?case by simp
next
  case (Suc n)
  let ?s1 = "logEv LWarn ''Asteroid model not loaded, skipping asteroid creation'' [] s"
  have "asteroidModel ?s1 = None" using Suc.prems by simp
  from Suc.IH [OF this] obtain s' where
    "createAsteroidsLoop rnd n ?s1 = Some s'" "asteroids s' = asteroids ?s1"
    "ship s' = ship ?s1" "sceneObjs s' = sceneObjs ?s1" "asteroidModel s' = None"
    "logE s' = logE ?s1 @ replicate n
       (LogEntry LWarn ''Asteroid model not loaded, skipping asteroid creation'' []
          ''ThreeSceneE'')" by blast
  then show ?case
    using Suc.prems
    by (simp add: createAsteroid_without_model replicate_append_same [symmetric]
             del: replicate.simps) (simp add: replicate_append_same)
qed

lemma createAsteroidsLoop_with_model:
  assumes "asteroidModel s = Some model" and "\<forall>k. \<exists>n. farEnough rnd (k + 2 * n)"
  shows "\<exists>s'. createAsteroidsLoop rnd n s = Some s' \<and>
           length (asteroids s') = length (asteroids s) + n \<and>
           take (length (asteroids s)) (asteroids s') = asteroids s \<and>
           (\<forall>a \<in> set (drop (length (asteroids s)) (asteroids s')). a_mesh a = Model model) \<and>
           ship s' = ship s \<and> logE s' = logE s \<and> asteroidModel s' = asteroidModel s"
  using assms(1)
proof (induction n arbitrary: s)
  case 0
  then show ?case by simp
next
  case (Suc n)
  from createAsteroid_with_model [OF Suc.prems assms(2), of 3] obtain s1 a where
    c: "createAsteroid rnd 3 s = Some s1" and a: "asteroids s1 = asteroids s @ [a]"
    and am: "a_mesh a = Model model"
    and k: "ship s1 = ship s" "asteroidModel s1 = asteroidModel s" "logE s1 = logE s"
    by blast
  from k(2) Suc.prems have "asteroidModel s1 = Some model" by simp
  from Suc.IH [OF this] obtain s' where
    l: "createAsteroidsLoop rnd n s1 = Some s'"
    and len: "length (asteroids s') = length (asteroids s1) + n"
    and tk: "take (length (asteroids s1)) (asteroids s') = asteroids s1"
    and dr: "\<forall>a \<in> set (drop (length (asteroids s1)) (asteroids s')). a_mesh a = Model model"
    and k': "ship s' = ship s1" "logE s' = logE s1" "asteroidModel s' = asteroidModel s1"
    by blast
  have tk0: "take (length (asteroids s)) (asteroids s') = asteroids s"
  proof -
    have "take (length (asteroids s)) (take (length (asteroids s1)) (asteroids s'))
            = take (length (asteroids s)) (asteroids s1)" by (simp only: tk)
    then show ?thesis by (simp add: a min_def)
  qed
  have split: "drop (length (asteroids s)) (asteroids s')
                 = a # drop (length (asteroids s1)) (asteroids s')"
  proof -
    have "asteroids s' = asteroids s1 @ drop (length (asteroids s1)) (asteroids s')"
      using tk by (metis append_take_drop_id)
    then have "asteroids s' = asteroids s @ a # drop (length (asteroids s1)) (asteroids s')"
      by (simp add: a)
    then show ?thesis by (metis append_eq_conv_conj)
  qed
  show ?case
    using c l len tk0 dr am k k' by (simp add: a split)
qed

lemma createFallbackShip_fields:
  "ship (createFallbackShip s) =
     Some (Group [Mesh (ConeGeometry 0.8 2.5 3) ''MeshPhongMaterial'', thrusterGroup,
                  Mesh (SphereGeometry 3 32 16) ''ShaderMaterial shield''])"
  "sceneObjs (createFallbackShip s) = sceneObjs s @
     [Group [Mesh (ConeGeometry 0.8 2.5 3) ''MeshPhongMaterial'', thrusterGroup,
             Mesh (SphereGeometry 3 32 16) ''ShaderMaterial shield'']]"
  "asteroidModel (createFallbackShip s) = asteroidModel s"
  "asteroids (createFallbackShip s) = asteroids s"
  "gameLevel (createFallbackShip s) = gameLevel s"
  "logE (createFallbackShip s) = logE s"
  by (simp_all add: createFallbackShip_def createShield_def addToScene_def Let_def)

lemma createAsteroid_sceneObjs:
  "createAsteroid rnd sz s = Some s' \<Longrightarrow> set (sceneObjs s) \<subseteq> set (sceneObjs s')"
  by (auto simp: createAsteroid_def Let_def logEv_def split: option.splits prod.splits)

lemma createAsteroidsLoop_sceneObjs:
  "createAsteroidsLoop rnd n s = Some s' \<Longrightarrow> set (sceneObjs s) \<subseteq> set (sceneObjs s')"
proof (induction n arbitrary: s)
  case 0
  then show ?case by simp
next
  case (Suc n)
  then obtain s1 where c: "createAsteroid rnd 3 s = Some s1"
    and l: "createAsteroidsLoop rnd n s1 = Some s'"
    by (auto split: option.splits)
  from createAsteroid_sceneObjs [OF c] Suc.IH [OF l] show ?case by blast
qed

lemma loadShip_failed_unfold:
  "loadShip (LoadFailed msg) rnd s =
     createAsteroidsLoop rnd (5 + gameLevel s * 2)
       (createFallbackShip (logEv LError ''Failed to load ship model: {}'' [ArgStr msg] s))"
  by (simp add: loadShip_def createAsteroids_def createFallbackShip_fields)

lemma loadShip_failed_without_model:
  assumes "asteroidModel s = None"
  shows "\<exists>s'. loadShip (LoadFailed msg) rnd s = Some s' \<and>
         ship s' = Some (Group [Mesh (ConeGeometry 0.8 2.5 3) ''MeshPhongMaterial'',
                                thrusterGroup,
                                Mesh (SphereGeometry 3 32 16) ''ShaderMaterial shield'']) \<and>
         Group [Mesh (ConeGeometry 0.8 2.5 3) ''MeshPhongMaterial'', thrusterGroup,
                Mesh (SphereGeometry 3 32 16) ''ShaderMaterial shield''] \<in> set (sceneObjs s') \<and>
         asteroids s' = asteroids s \<and>
         logE s' = logE s @
           [LogEntry LError ''Failed to load ship model: {}'' [ArgStr msg] ''ThreeSceneE''] @
           replicate (5 + gameLevel s * 2)
             (LogEntry LWarn ''Asteroid model not loaded, skipping asteroid creation'' []
                ''ThreeSceneE'')"
proof -
  let ?s1 = "createFallbackShip
               (logEv LError ''Failed to load ship model: {}'' [ArgStr msg] s)"
  have "asteroidModel ?s1 = None" using assms by (simp add: createFallbackShip_fields)
  from createAsteroidsLoop_without_model [OF this, of rnd "5 + gameLevel s * 2"]
  obtain s' where l: "createAsteroidsLoop rnd (5 + gameLevel s * 2) ?s1 = Some s'"
    and f: "asteroids s' = asteroids ?s1" "ship s' = ship ?s1"
      "sceneObjs s' = sceneObjs ?s1"
      "logE s' = logE ?s1 @ replicate (5 + gameLevel s * 2)
         (LogEntry LWarn ''Asteroid model not loaded, skipping asteroid creation'' []
            ''ThreeSceneE'')" by blast
  show ?thesis
    using l f by (simp add: loadShip_failed_unfold createFallbackShip_fields)
qed

lemma loadShip_failed_with_model:
  assumes "asteroidModel s \<noteq> None" and "\<forall>k. \<exists>n. farEnough rnd (k + 2 * n)"
  shows "\<exists>s'. loadShip (LoadFailed msg) rnd s = Some s' \<and>
         ship s' = Some (Group [Mesh (ConeGeometry 0.8 2.5 3) ''MeshPhongMaterial'',
                                thrusterGroup,
                                Mesh (SphereGeometry 3 32 16) ''ShaderMaterial shield'']) \<and>
         Group [Mesh (ConeGeometry 0.8 2.5 3) ''MeshPhongMaterial'', thrusterGroup,
                Mesh (SphereGeometry 3 32 16) ''ShaderMaterial shield''] \<in> set (sceneObjs s') \<and>
         length (asteroids s') = length (asteroids s) + 5 + gameLevel s * 2 \<and>
         logE s' = logE s @
           [LogEntry LError ''Failed to load ship model: {}'' [ArgStr msg] ''ThreeSceneE'']"
proof -
  let ?fb = "Group [Mesh (ConeGeometry 0.8 2.5 3) ''MeshPhongMaterial'', thrusterGroup,
                    Mesh (SphereGeometry 3 32 16) ''ShaderMaterial shield'']"
  let ?s1 = "createFallbackShip
               (logEv LError ''Failed to load ship model: {}'' [ArgStr msg] s)"
  have in1: "?fb \<in> set (sceneObjs ?s1)" by (simp add: createFallbackShip_fields)
  from assms(1) obtain model where "asteroidModel s = Some model" by blast
  then have "asteroidModel ?s1 = Some model" by (simp add: createFallbackShip_fields)
  from createAsteroidsLoop_with_model [OF this assms(2), of "5 + gameLevel s * 2"]
  obtain s' where l: "createAsteroidsLoop rnd (5 + gameLevel s * 2) ?s1 = Some s'"
    and f: "length (asteroids s') = length (asteroids ?s1) + (5 + gameLevel s * 2)"
      "ship s' = ship ?s1" "logE s' = logE ?s1" by blast
  from createAsteroidsLoop_sceneObjs [OF l] in1 have "?fb \<in> set (sceneObjs s')" by blast
  then show ?thesis
    using l f by (simp add: loadShip_failed_unfold createFallbackShip_fields)
qed

text \<open>
  C7 (as amended). When the ship model fails to load, the failure is logged, the ship
  becomes the fallback ship, whose hull is a three-sided cone (not a cube), with its
  thrusters and shield, the fallback ship is in the scene, and \<open>createAsteroids\<close> runs:
  with the asteroid model loaded (and a placement loop that ends) it adds
  \<open>5 + level * 2\<close> asteroids, without it it adds none and warns as many times. When the
  asteroid model fails to load, that is logged and nothing else changes. Without the
  asteroid model, \<open>createAsteroidAt\<close> gives an icosahedron and puts it into the scene.
\<close>

theorem ship_fallback_is_cone:
  "(asteroidModel s = None \<longrightarrow>
      (\<exists>s'. loadShip (LoadFailed msg) rnd s = Some s' \<and>
         ship s' = Some (Group [Mesh (ConeGeometry 0.8 2.5 3) ''MeshPhongMaterial'',
                                thrusterGroup,
                                Mesh (SphereGeometry 3 32 16) ''ShaderMaterial shield'']) \<and>
         Group [Mesh (ConeGeometry 0.8 2.5 3) ''MeshPhongMaterial'', thrusterGroup,
                Mesh (SphereGeometry 3 32 16) ''ShaderMaterial shield''] \<in> set (sceneObjs s') \<and>
         asteroids s' = asteroids s \<and>
         logE s' = logE s @
           [LogEntry LError ''Failed to load ship model: {}'' [ArgStr msg] ''ThreeSceneE''] @
           replicate (5 + gameLevel s * 2)
             (LogEntry LWarn ''Asteroid model not loaded, skipping asteroid creation'' []
                ''ThreeSceneE''))) \<and>
   (asteroidModel s \<noteq> None \<and> (\<forall>k. \<exists>n. farEnough rnd (k + 2 * n)) \<longrightarrow>
      (\<exists>s'. loadShip (LoadFailed msg) rnd s = Some s' \<and>
         ship s' = Some (Group [Mesh (ConeGeometry 0.8 2.5 3) ''MeshPhongMaterial'',
                                thrusterGroup,
                                Mesh (SphereGeometry 3 32 16) ''ShaderMaterial shield'']) \<and>
         Group [Mesh (ConeGeometry 0.8 2.5 3) ''MeshPhongMaterial'', thrusterGroup,
                Mesh (SphereGeometry 3 32 16) ''ShaderMaterial shield''] \<in> set (sceneObjs s') \<and>
         length (asteroids s') = length (asteroids s) + 5 + gameLevel s * 2 \<and>
         logE s' = logE s @
           [LogEntry LError ''Failed to load ship model: {}'' [ArgStr msg] ''ThreeSceneE''])) \<and>
   loadAsteroidModel (LoadFailed msg) s =
     s\<lparr>logE := logE s @
          [LogEntry LError ''Failed to load asteroid model: {}'' [ArgStr msg] ''ThreeSceneE'']\<rparr> \<and>
   (asteroidModel s = None \<longrightarrow>
      a_mesh (fst (createAsteroidAt rnd pos sz s))
        = Mesh (IcosahedronGeometry (sz * 0.7) 1) ''MeshStandardMaterial'' \<and>
      Mesh (IcosahedronGeometry (sz * 0.7) 1) ''MeshStandardMaterial''
        \<in> set (sceneObjs (snd (createAsteroidAt rnd pos sz s))))"
proof -
  have c: "loadAsteroidModel (LoadFailed msg) s =
     s\<lparr>logE := logE s @
          [LogEntry LError ''Failed to load asteroid model: {}'' [ArgStr msg] ''ThreeSceneE'']\<rparr>"
    by (simp add: loadAsteroidModel_def logEv_def)
  have d: "asteroidModel s = None \<longrightarrow>
      a_mesh (fst (createAsteroidAt rnd pos sz s))
        = Mesh (IcosahedronGeometry (sz * 0.7) 1) ''MeshStandardMaterial'' \<and>
      Mesh (IcosahedronGeometry (sz * 0.7) 1) ''MeshStandardMaterial''
        \<in> set (sceneObjs (snd (createAsteroidAt rnd pos sz s)))"
    by (simp add: createAsteroidAt_def Let_def)
  show ?thesis
  proof (intro conjI impI)
    assume "asteroidModel s = None"
    then show "\<exists>s'. loadShip (LoadFailed msg) rnd s = Some s' \<and>
         ship s' = Some (Group [Mesh (ConeGeometry 0.8 2.5 3) ''MeshPhongMaterial'',
                                thrusterGroup,
                                Mesh (SphereGeometry 3 32 16) ''ShaderMaterial shield'']) \<and>
         Group [Mesh (ConeGeometry 0.8 2.5 3) ''MeshPhongMaterial'', thrusterGroup,
                Mesh (SphereGeometry 3 32 16) ''ShaderMaterial shield''] \<in> set (sceneObjs s') \<and>
         asteroids s' = asteroids s \<and>
         logE s' = logE s @
           [LogEntry LError ''Failed to load ship model: {}'' [ArgStr msg] ''ThreeSceneE''] @
           replicate (5 + gameLevel s * 2)
             (LogEntry LWarn ''Asteroid model not loaded, skipping asteroid creation'' []
                ''ThreeSceneE'')"
      by (rule loadShip_failed_without_model)
  next
    assume "asteroidModel s \<noteq> None \<and> (\<forall>k. \<exists>n. farEnough rnd (k + 2 * n))"
    then show "\<exists>s'. loadShip (LoadFailed msg) rnd s = Some s' \<and>
         ship s' = Some (Group [Mesh (ConeGeometry 0.8 2.5 3) ''MeshPhongMaterial'',
                                thrusterGroup,
                                Mesh (SphereGeometry 3 32 16) ''ShaderMaterial shield'']) \<and>
         Group [Mesh (ConeGeometry 0.8 2.5 3) ''MeshPhongMaterial'', thrusterGroup,
                Mesh (SphereGeometry 3 32 16) ''ShaderMaterial shield''] \<in> set (sceneObjs s') \<and>
         length (asteroids s') = length (asteroids s) + 5 + gameLevel s * 2 \<and>
         logE s' = logE s @
           [LogEntry LError ''Failed to load ship model: {}'' [ArgStr msg] ''ThreeSceneE'']"
      using loadShip_failed_with_model [of s rnd msg] by blast
  next
    show "loadAsteroidModel (LoadFailed msg) s =
     s\<lparr>logE := logE s @
          [LogEntry LError ''Failed to load asteroid model: {}'' [ArgStr msg] ''ThreeSceneE'']\<rparr>"
      by (rule c)
  next
    assume "asteroidModel s = None"
    with d show "a_mesh (fst (createAsteroidAt rnd pos sz s))
        = Mesh (IcosahedronGeometry (sz * 0.7) 1) ''MeshStandardMaterial''" by blast
  next
    assume "asteroidModel s = None"
    with d show "Mesh (IcosahedronGeometry (sz * 0.7) 1) ''MeshStandardMaterial''
        \<in> set (sceneObjs (snd (createAsteroidAt rnd pos sz s)))" by blast
  qed
qed

lemma zero_stream_farEnough: "farEnough (\<lambda>k. 0) k"
proof -
  have "sqrt (225::real) = 15" using real_sqrt_abs [of "15::real"] by simp
  moreover have "sqrt (225::real) \<le> sqrt 2592" by (rule real_sqrt_le_mono) simp
  ultimately have ge: "15 \<le> sqrt (2592::real)" by linarith
  show ?thesis by (simp add: farEnough_def not_less ge)
qed

theorem ship_fallback_is_cone_witness:
  "(\<exists>s'. loadShip (LoadFailed ''404'') (\<lambda>k. 0) (loadAsteroidModel Loaded initE) = Some s' \<and>
      ship s' = Some (Group [Mesh (ConeGeometry 0.8 2.5 3) ''MeshPhongMaterial'',
                             thrusterGroup,
                             Mesh (SphereGeometry 3 32 16) ''ShaderMaterial shield'']) \<and>
      length (asteroids s') = 7) \<and>
   (\<exists>s'. loadShip (LoadFailed ''404'') (\<lambda>k. 0) initE = Some s' \<and>
      ship s' = Some (Group [Mesh (ConeGeometry 0.8 2.5 3) ''MeshPhongMaterial'',
                             thrusterGroup,
                             Mesh (SphereGeometry 3 32 16) ''ShaderMaterial shield'']) \<and>
      asteroids s' = [])"
proof -
  define s where "s = loadAsteroidModel Loaded initE"
  have m: "asteroidModel s \<noteq> None \<and> (\<forall>k. \<exists>n. farEnough (\<lambda>k. 0) (k + 2 * n))"
    using zero_stream_farEnough by (simp add: s_def loadAsteroidModel_def initE_def)
  have f: "asteroids s = []" "gameLevel s = 1"
    by (simp_all add: s_def loadAsteroidModel_def initE_def)
  have n: "asteroidModel initE = None" "asteroids initE = []" by (simp_all add: initE_def)
  from ship_fallback_is_cone [of s "''404''" "\<lambda>k. 0" "(0, 0, 0)" 1] m
  have "\<exists>s'. loadShip (LoadFailed ''404'') (\<lambda>k. 0) s = Some s' \<and>
      ship s' = Some (Group [Mesh (ConeGeometry 0.8 2.5 3) ''MeshPhongMaterial'',
                             thrusterGroup,
                             Mesh (SphereGeometry 3 32 16) ''ShaderMaterial shield'']) \<and>
      length (asteroids s') = 7"
    by (auto simp: f)
  moreover from ship_fallback_is_cone [of initE "''404''" "\<lambda>k. 0" "(0, 0, 0)" 1] n
  have "\<exists>s'. loadShip (LoadFailed ''404'') (\<lambda>k. 0) initE = Some s' \<and>
      ship s' = Some (Group [Mesh (ConeGeometry 0.8 2.5 3) ''MeshPhongMaterial'',
                             thrusterGroup,
                             Mesh (SphereGeometry 3 32 16) ''ShaderMaterial shield'']) \<and>
      asteroids s' = []"
    by auto
  ultimately show ?thesis unfolding s_def by blast
qed

text \<open>
  C7 as stated fails. With both models failing to load (the asteroid model first, as the
  constructor starts it, then the ship model when the game starts), the ship is the
  fallback ship, whose hull is a cone and none of whose parts is a box, and no asteroid
  has been created.
\<close>

theorem fallback_not_cube_counterexample:
  "map_option ship
     (loadShip (LoadFailed ''404'') (\<lambda>k. 0) (loadAsteroidModel (LoadFailed ''404'') initE))
     = Some (Some (Group [Mesh (ConeGeometry 0.8 2.5 3) ''MeshPhongMaterial'',
                          Group [Mesh (ConeGeometry 0.15 0.8 6) ''MeshBasicMaterial'',
                                 Mesh (ConeGeometry 0.15 0.8 6) ''MeshBasicMaterial'',
                                 Mesh (ConeGeometry 0.15 0.8 6) ''MeshBasicMaterial''],
                          Mesh (SphereGeometry 3 32 16) ''ShaderMaterial shield''])) \<and>
   map_option asteroids
     (loadShip (LoadFailed ''404'') (\<lambda>k. 0) (loadAsteroidModel (LoadFailed ''404'') initE))
     = Some []"
proof -
  define s where "s = loadAsteroidModel (LoadFailed ''404'') initE"
  have n: "asteroidModel s = None" "asteroids s = []"
    by (simp_all add: s_def loadAsteroidModel_def initE_def)
  from loadShip_failed_without_model [OF n(1), of "''404''" "\<lambda>k. 0"] obtain s' where
    "loadShip (LoadFailed ''404'') (\<lambda>k. 0) s = Some s'"
    "ship s' = Some (Group [Mesh (ConeGeometry 0.8 2.5 3) ''MeshPhongMaterial'',
                            thrusterGroup,
                            Mesh (SphereGeometry 3 32 16) ''ShaderMaterial shield''])"
    "asteroids s' = asteroids s" by blast
  then have "map_option ship (loadShip (LoadFailed ''404'') (\<lambda>k. 0) s)
       = Some (Some (Group [Mesh (ConeGeometry 0.8 2.5 3) ''MeshPhongMaterial'',
                          Group [Mesh (ConeGeometry 0.15 0.8 6) ''MeshBasicMaterial'',
                                 Mesh (ConeGeometry 0.15 0.8 6) ''MeshBasicMaterial'',
                                 Mesh (ConeGeometry 0.15 0.8 6) ''MeshBasicMaterial''],
                          Mesh (SphereGeometry 3 32 16) ''ShaderMaterial shield''])) \<and>
     map_option asteroids (loadShip (LoadFailed ''404'') (\<lambda>k. 0) s) = Some []"
    by (simp add: n thrusterGroup_def numeral_3_eq_3)
  then show ?thesis unfolding s_def .
qed

end
